theory Spec2Isabelle
  imports Main "HOL-Library.Word"
begin

section \<open>Platform and build configuration\<close>

text \<open>
  The embedding follows \<^verbatim>\<open>src/zmalloc.c\<close> on an LP64 platform: \<^verbatim>\<open>size_t\<close> and
  pointers are 64-bit words (arithmetic wraps), \<^verbatim>\<open>sizeof(long)\<close> is 8 and \<^verbatim>\<open>NULL\<close> is the
  pointer 0. The conditional compilation of the file is a record of build switches, so
  that every theorem that does not fix a switch holds for every build.
\<close>

type_synonym size_t = "64 word"
type_synonym ptr = "64 word"

record config =
  HAVE_MALLOC_SIZE :: bool
  USE_JEMALLOC :: bool
  IO_THREADS_MAX_NUM :: nat

definition SIZE_MAX :: size_t where
  "SIZE_MAX = 18446744073709551615"

definition sizeof_long :: size_t where
  "sizeof_long = 8"

definition PREFIX_SIZE :: "config \<Rightarrow> size_t" where
  "PREFIX_SIZE cfg = (if HAVE_MALLOC_SIZE cfg then 0 else 8)"

definition MALLOC_MIN_SIZE :: "size_t \<Rightarrow> size_t" where
  "MALLOC_MIN_SIZE x = (if x > 0 then x else sizeof_long)"

definition MAX_THREADS_NUM :: "config \<Rightarrow> int" where
  "MAX_THREADS_NUM cfg = int (IO_THREADS_MAX_NUM cfg) + 3 + 1"

section \<open>State\<close>

text \<open>
  The out-of-memory handler is a function pointer: either the file's own
  \<^verbatim>\<open>zmalloc_default_oom\<close>, which prints and calls \<^verbatim>\<open>abort()\<close>, or a handler of the
  embedding program, identified by a number together with whether it gives control back.
\<close>

datatype oom_handler = zmalloc_default_oom | Handler nat bool

text \<open>
  The effects of a call, in the order the code performs them: the calls into the
  underlying allocator, the calls of the out-of-memory handler and the updates of the
  accounting counters.
\<close>

datatype event =
    Ev_malloc size_t
  | Ev_calloc size_t size_t
  | Ev_realloc ptr size_t
  | Ev_free ptr
  | Ev_sdallocx ptr size_t
  | Ev_oom oom_handler size_t
  | Ev_stat_alloc size_t
  | Ev_stat_free size_t

text \<open>
  \<open>thread_index\<close> is the thread-local of the calling thread. \<open>used_memory_thread\<close> is
  the table the pointer of that name addresses; its length is the table's extent.
  \<open>heap_word\<close> is the \<^verbatim>\<open>size_t\<close> stored at an address (the size header of a header-based
  build), \<open>allocator_size\<close> is what the allocator's own usable-size query answers for a
  pointer (a native build). \<open>trace\<close> is the history of effects.
\<close>

record zstate =
  thread_index :: int
  used_memory_thread :: "size_t list"
  total_active_threads :: int
  used_memory_for_additional_threads :: size_t
  zmalloc_oom_handler :: oom_handler
  heap_word :: "ptr \<Rightarrow> size_t"
  allocator_size :: "ptr \<Rightarrow> size_t"
  trace :: "event list"

text \<open>
  How a call can stop instead of returning: \<^verbatim>\<open>abort()\<close> in the default handler, a
  handler that does not give control back, the \<^verbatim>\<open>assert\<close> of \<^verbatim>\<open>zfree_internal\<close>, and
  an access outside the per-thread table (undefined behaviour in C).
\<close>

datatype halt = Abort_called | Handler_no_return | Assert_failed | Out_of_bounds

type_synonym 'a res = "(halt \<times> zstate) + ('a \<times> zstate)"

section \<open>The underlying allocator\<close>

text \<open>
  The allocator is outside the file. What it answers to a call is an argument of the
  model: the pointer it returns (0 when it fails) and the usable size it will report
  for that pointer.
\<close>

type_synonym answer = "ptr \<times> size_t"

definition note_block :: "answer \<Rightarrow> zstate \<Rightarrow> zstate" where
  "note_block ans st =
     (if fst ans = 0 then st
      else st\<lparr>allocator_size := (allocator_size st)(fst ans := snd ans)\<rparr>)"

definition malloc :: "size_t \<Rightarrow> answer \<Rightarrow> zstate \<Rightarrow> ptr \<times> zstate" where
  "malloc n ans st = (fst ans, (note_block ans st)\<lparr>trace := trace st @ [Ev_malloc n]\<rparr>)"

definition calloc :: "size_t \<Rightarrow> size_t \<Rightarrow> answer \<Rightarrow> zstate \<Rightarrow> ptr \<times> zstate" where
  "calloc k n ans st =
     (fst ans,
      (if fst ans = 0 then st
       else st\<lparr>allocator_size := (allocator_size st)(fst ans := snd ans),
               heap_word := (heap_word st)(fst ans := 0)\<rparr>)
      \<lparr>trace := trace st @ [Ev_calloc k n]\<rparr>)"

text \<open>
  A successful \<^verbatim>\<open>realloc\<close> carries the block's contents to the new address. When the
  block moves, the old block is released: what is read at the old address afterwards,
  its first word as well as the allocator's size for it, is no longer the block's. The
  model puts the pattern \<open>freed_word\<close> there. A \<^verbatim>\<open>realloc\<close> that fails leaves the old
  block as it is.
\<close>

definition freed_word :: size_t where
  "freed_word = 16045690984833335023"

definition realloc :: "ptr \<Rightarrow> size_t \<Rightarrow> answer \<Rightarrow> zstate \<Rightarrow> ptr \<times> zstate" where
  "realloc p n ans st =
     (fst ans,
      (if fst ans = 0 then st
       else st\<lparr>allocator_size := (allocator_size st)(p := freed_word, fst ans := snd ans),
               heap_word := (heap_word st)(p := freed_word, fst ans := heap_word st p)\<rparr>)
      \<lparr>trace := trace st @ [Ev_realloc p n]\<rparr>)"

definition free :: "ptr \<Rightarrow> zstate \<Rightarrow> zstate" where
  "free p st = st\<lparr>trace := trace st @ [Ev_free p]\<rparr>"

definition je_sdallocx :: "ptr \<Rightarrow> size_t \<Rightarrow> zstate \<Rightarrow> zstate" where
  "je_sdallocx p n st = st\<lparr>trace := trace st @ [Ev_sdallocx p n]\<rparr>"

section \<open>Per-thread accounting\<close>

text \<open>\<^verbatim>\<open>atomic_fetch_add\<close> on an \<^verbatim>\<open>atomic_int\<close> wraps in two's complement.\<close>

definition atomic_int_add :: "int \<Rightarrow> int \<Rightarrow> int" where
  "atomic_int_add a b = (a + b + 2147483648) mod 4294967296 - 2147483648"

definition zmalloc_register_thread_index :: "zstate \<Rightarrow> zstate" where
  "zmalloc_register_thread_index st =
     st\<lparr>thread_index := total_active_threads st,
        total_active_threads := atomic_int_add (total_active_threads st) 1\<rparr>"

definition update_zmalloc_stat_alloc :: "config \<Rightarrow> size_t \<Rightarrow> zstate \<Rightarrow> (halt \<times> zstate) + zstate" where
  "update_zmalloc_stat_alloc cfg sz st0 =
     (let st = (if thread_index st0 = - 1 then zmalloc_register_thread_index st0 else st0);
          i = thread_index st;
          tbl = used_memory_thread st
      in if i \<ge> MAX_THREADS_NUM cfg then
           Inr (st\<lparr>used_memory_for_additional_threads :=
                       used_memory_for_additional_threads st + sz,
                   trace := trace st @ [Ev_stat_alloc sz]\<rparr>)
         else if 0 \<le> i \<and> i < int (length tbl) then
           Inr (st\<lparr>used_memory_thread := tbl[nat i := tbl ! nat i + sz],
                   trace := trace st @ [Ev_stat_alloc sz]\<rparr>)
         else Inl (Out_of_bounds, st))"

definition update_zmalloc_stat_free :: "config \<Rightarrow> size_t \<Rightarrow> zstate \<Rightarrow> (halt \<times> zstate) + zstate" where
  "update_zmalloc_stat_free cfg sz st0 =
     (let st = (if thread_index st0 = - 1 then zmalloc_register_thread_index st0 else st0);
          i = thread_index st;
          tbl = used_memory_thread st
      in if i \<ge> MAX_THREADS_NUM cfg then
           Inr (st\<lparr>used_memory_for_additional_threads :=
                       used_memory_for_additional_threads st - sz,
                   trace := trace st @ [Ev_stat_free sz]\<rparr>)
         else if 0 \<le> i \<and> i < int (length tbl) then
           Inr (st\<lparr>used_memory_thread := tbl[nat i := tbl ! nat i - sz],
                   trace := trace st @ [Ev_stat_free sz]\<rparr>)
         else Inl (Out_of_bounds, st))"

section \<open>Out-of-memory handler\<close>

text \<open>The call \<^verbatim>\<open>zmalloc_oom_handler(size)\<close> through the function pointer.\<close>

definition call_oom_handler :: "size_t \<Rightarrow> zstate \<Rightarrow> (halt \<times> zstate) + zstate" where
  "call_oom_handler sz st =
     (let st1 = st\<lparr>trace := trace st @ [Ev_oom (zmalloc_oom_handler st) sz]\<rparr>
      in case zmalloc_oom_handler st of
           zmalloc_default_oom \<Rightarrow> Inl (Abort_called, st1)
         | Handler n returns \<Rightarrow> if returns then Inr st1 else Inl (Handler_no_return, st1))"

definition zmalloc_set_oom_handler :: "oom_handler \<Rightarrow> zstate \<Rightarrow> zstate" where
  "zmalloc_set_oom_handler oom_handler st = st\<lparr>zmalloc_oom_handler := oom_handler\<rparr>"

section \<open>Size header strategy\<close>

text \<open>
  Modelled from the spec: \<^verbatim>\<open>zmalloc.h\<close> is not among the sources. On a native build
  \<^verbatim>\<open>zmalloc_size\<close> and \<^verbatim>\<open>zmalloc_usable_size\<close> are macros of that header; the spec says
  the usable size is then "obtained by asking the allocator directly". On a header-based
  build both are the functions of \<^verbatim>\<open>zmalloc.c\<close>.
\<close>

definition zmalloc_size :: "config \<Rightarrow> zstate \<Rightarrow> ptr \<Rightarrow> size_t" where
  "zmalloc_size cfg st p =
     (if HAVE_MALLOC_SIZE cfg then allocator_size st p
      else (let realptr = p - PREFIX_SIZE cfg; sz = heap_word st realptr
            in sz + PREFIX_SIZE cfg))"

definition zmalloc_usable_size :: "config \<Rightarrow> zstate \<Rightarrow> ptr \<Rightarrow> size_t" where
  "zmalloc_usable_size cfg st p =
     (if HAVE_MALLOC_SIZE cfg then zmalloc_size cfg st p
      else zmalloc_size cfg st p - PREFIX_SIZE cfg)"

definition extend_to_usable :: "ptr \<Rightarrow> size_t \<Rightarrow> ptr" where
  "extend_to_usable p sz = p"

section \<open>Allocation\<close>

text \<open>
  An out-parameter \<^verbatim>\<open>size_t *usable\<close> is the second component of the result: the value
  the function writes through it, \<open>None\<close> when it returns without writing. A caller that
  passed \<^verbatim>\<open>NULL\<close> drops it.
\<close>

definition ztrymalloc_usable_internal ::
  "config \<Rightarrow> size_t \<Rightarrow> answer \<Rightarrow> zstate \<Rightarrow> (ptr \<times> size_t option) res" where
  "ztrymalloc_usable_internal cfg sz ans st =
     (if sz \<ge> SIZE_MAX div 2 then Inr ((0, None), st)
      else
        let (p, st1) = malloc (MALLOC_MIN_SIZE sz + PREFIX_SIZE cfg) ans st
        in if p = 0 then Inr ((0, None), st1)
           else if HAVE_MALLOC_SIZE cfg then
             (let sz1 = zmalloc_size cfg st1 p
              in case update_zmalloc_stat_alloc cfg sz1 st1 of
                   Inl e \<Rightarrow> Inl e
                 | Inr st2 \<Rightarrow> Inr ((p, Some sz1), st2))
           else
             (let sz1 = MALLOC_MIN_SIZE sz;
                  st2 = st1\<lparr>heap_word := (heap_word st1)(p := sz1)\<rparr>
              in case update_zmalloc_stat_alloc cfg (sz1 + PREFIX_SIZE cfg) st2 of
                   Inl e \<Rightarrow> Inl e
                 | Inr st3 \<Rightarrow> Inr ((p + PREFIX_SIZE cfg, Some sz1), st3)))"

definition written :: "size_t option \<Rightarrow> size_t" where
  "written w = (case w of None \<Rightarrow> 0 | Some v \<Rightarrow> v)"

definition ztrymalloc_usable :: "config \<Rightarrow> size_t \<Rightarrow> answer \<Rightarrow> zstate \<Rightarrow> (ptr \<times> size_t) res" where
  "ztrymalloc_usable cfg sz ans st =
     (case ztrymalloc_usable_internal cfg sz ans st of
        Inl e \<Rightarrow> Inl e
      | Inr ((p, w), st1) \<Rightarrow>
          (let usable_size = written w;
               p1 = (if HAVE_MALLOC_SIZE cfg then extend_to_usable p usable_size else p)
           in Inr ((p1, usable_size), st1)))"

definition zmalloc :: "config \<Rightarrow> size_t \<Rightarrow> answer \<Rightarrow> zstate \<Rightarrow> ptr res" where
  "zmalloc cfg sz ans st =
     (case ztrymalloc_usable_internal cfg sz ans st of
        Inl e \<Rightarrow> Inl e
      | Inr ((p, w), st1) \<Rightarrow>
          if p = 0 then
            (case call_oom_handler sz st1 of
               Inl e \<Rightarrow> Inl e
             | Inr st2 \<Rightarrow> Inr (p, st2))
          else Inr (p, st1))"

definition ztrymalloc :: "config \<Rightarrow> size_t \<Rightarrow> answer \<Rightarrow> zstate \<Rightarrow> ptr res" where
  "ztrymalloc cfg sz ans st =
     (case ztrymalloc_usable_internal cfg sz ans st of
        Inl e \<Rightarrow> Inl e
      | Inr ((p, w), st1) \<Rightarrow> Inr (p, st1))"

section \<open>Zero-filled allocation\<close>

definition ztrycalloc_usable_internal ::
  "config \<Rightarrow> size_t \<Rightarrow> answer \<Rightarrow> zstate \<Rightarrow> (ptr \<times> size_t option) res" where
  "ztrycalloc_usable_internal cfg sz ans st =
     (if sz \<ge> SIZE_MAX div 2 then Inr ((0, None), st)
      else
        let (p, st1) = calloc 1 (MALLOC_MIN_SIZE sz + PREFIX_SIZE cfg) ans st
        in if p = 0 then Inr ((0, None), st1)
           else if HAVE_MALLOC_SIZE cfg then
             (let sz1 = zmalloc_size cfg st1 p
              in case update_zmalloc_stat_alloc cfg sz1 st1 of
                   Inl e \<Rightarrow> Inl e
                 | Inr st2 \<Rightarrow> Inr ((p, Some sz1), st2))
           else
             (let sz1 = MALLOC_MIN_SIZE sz;
                  st2 = st1\<lparr>heap_word := (heap_word st1)(p := sz1)\<rparr>
              in case update_zmalloc_stat_alloc cfg (sz1 + PREFIX_SIZE cfg) st2 of
                   Inl e \<Rightarrow> Inl e
                 | Inr st3 \<Rightarrow> Inr ((p + PREFIX_SIZE cfg, Some sz1), st3)))"

text \<open>
  \<^verbatim>\<open>zcalloc_num\<close>: the \<^verbatim>\<open>||\<close> of the guard does not evaluate the division when
  \<^verbatim>\<open>size == 0\<close>.
\<close>

definition zcalloc_num :: "config \<Rightarrow> size_t \<Rightarrow> size_t \<Rightarrow> answer \<Rightarrow> zstate \<Rightarrow> ptr res" where
  "zcalloc_num cfg num sz ans st =
     (if sz = 0 \<or> num > SIZE_MAX div sz then
        (case call_oom_handler SIZE_MAX st of
           Inl e \<Rightarrow> Inl e
         | Inr st1 \<Rightarrow> Inr (0, st1))
      else
        (case ztrycalloc_usable_internal cfg (num * sz) ans st of
           Inl e \<Rightarrow> Inl e
         | Inr ((p, w), st1) \<Rightarrow>
             if p = 0 then
               (case call_oom_handler (num * sz) st1 of
                  Inl e \<Rightarrow> Inl e
                | Inr st2 \<Rightarrow> Inr (p, st2))
             else Inr (p, st1)))"

section \<open>Release\<close>

definition zfree_internal :: "config \<Rightarrow> ptr \<Rightarrow> size_t \<Rightarrow> zstate \<Rightarrow> (halt \<times> zstate) + zstate" where
  "zfree_internal cfg p sz st =
     (if p = 0 then Inl (Assert_failed, st)
      else
        case update_zmalloc_stat_free cfg sz st of
          Inl e \<Rightarrow> Inl e
        | Inr st1 \<Rightarrow> Inr (if USE_JEMALLOC cfg then je_sdallocx p sz st1 else free p st1))"

definition zfree :: "config \<Rightarrow> ptr \<Rightarrow> zstate \<Rightarrow> (halt \<times> zstate) + zstate" where
  "zfree cfg p st =
     (if p = 0 then Inr st
      else if HAVE_MALLOC_SIZE cfg then
        (let sz = zmalloc_size cfg st p in zfree_internal cfg p sz st)
      else
        (let p1 = p - PREFIX_SIZE cfg;
             data_size = heap_word st p1;
             sz = data_size + PREFIX_SIZE cfg
         in zfree_internal cfg p1 sz st))"

definition zfree_with_size :: "config \<Rightarrow> ptr \<Rightarrow> size_t \<Rightarrow> zstate \<Rightarrow> (halt \<times> zstate) + zstate" where
  "zfree_with_size cfg p sz st =
     (if p = 0 then Inr st
      else if HAVE_MALLOC_SIZE cfg then zfree_internal cfg p sz st
      else
        (let p1 = p - PREFIX_SIZE cfg;
             sz1 = sz + PREFIX_SIZE cfg
         in zfree_internal cfg p1 sz1 st))"

section \<open>Reallocation\<close>

definition ztryrealloc_usable_internal ::
  "config \<Rightarrow> ptr \<Rightarrow> size_t \<Rightarrow> answer \<Rightarrow> zstate \<Rightarrow> (ptr \<times> size_t option) res" where
  "ztryrealloc_usable_internal cfg p sz ans st =
     (if sz = 0 \<and> p \<noteq> 0 then
        (case zfree cfg p st of
           Inl e \<Rightarrow> Inl e
         | Inr st1 \<Rightarrow> Inr ((0, Some 0), st1))
      else if p = 0 then
        (case ztrymalloc_usable cfg sz ans st of
           Inl e \<Rightarrow> Inl e
         | Inr ((q, u), st1) \<Rightarrow> Inr ((q, Some u), st1))
      else if sz \<ge> SIZE_MAX div 2 then
        (case zfree cfg p st of
           Inl e \<Rightarrow> Inl e
         | Inr st1 \<Rightarrow> Inr ((0, Some 0), st1))
      else if HAVE_MALLOC_SIZE cfg then
        (let oldsize = zmalloc_size cfg st p;
             (newptr, st1) = realloc p sz ans st
         in if newptr = 0 then Inr ((0, Some 0), st1)
            else
              case update_zmalloc_stat_free cfg oldsize st1 of
                Inl e \<Rightarrow> Inl e
              | Inr st2 \<Rightarrow>
                  (let sz1 = zmalloc_size cfg st2 newptr
                   in case update_zmalloc_stat_alloc cfg sz1 st2 of
                        Inl e \<Rightarrow> Inl e
                      | Inr st3 \<Rightarrow> Inr ((newptr, Some sz1), st3)))
      else
        (let realptr = p - PREFIX_SIZE cfg;
             oldsize = heap_word st realptr;
             (newptr, st1) = realloc realptr (sz + PREFIX_SIZE cfg) ans st
         in if newptr = 0 then Inr ((0, Some 0), st1)
            else
              (let st2 = st1\<lparr>heap_word := (heap_word st1)(newptr := sz)\<rparr>
               in case update_zmalloc_stat_free cfg oldsize st2 of
                    Inl e \<Rightarrow> Inl e
                  | Inr st3 \<Rightarrow>
                      (case update_zmalloc_stat_alloc cfg sz st3 of
                         Inl e \<Rightarrow> Inl e
                       | Inr st4 \<Rightarrow> Inr ((newptr + PREFIX_SIZE cfg, Some sz), st4)))))"

definition ztryrealloc_usable ::
  "config \<Rightarrow> ptr \<Rightarrow> size_t \<Rightarrow> answer \<Rightarrow> zstate \<Rightarrow> (ptr \<times> size_t) res" where
  "ztryrealloc_usable cfg p sz ans st =
     (case ztryrealloc_usable_internal cfg p sz ans st of
        Inl e \<Rightarrow> Inl e
      | Inr ((q, w), st1) \<Rightarrow>
          (let usable_size = written w;
               q1 = (if HAVE_MALLOC_SIZE cfg then extend_to_usable q usable_size else q)
           in Inr ((q1, usable_size), st1)))"

definition zrealloc :: "config \<Rightarrow> ptr \<Rightarrow> size_t \<Rightarrow> answer \<Rightarrow> zstate \<Rightarrow> ptr res" where
  "zrealloc cfg p sz ans st =
     (case ztryrealloc_usable_internal cfg p sz ans st of
        Inl e \<Rightarrow> Inl e
      | Inr ((q, w), st1) \<Rightarrow>
          if q = 0 \<and> sz \<noteq> 0 then
            (case call_oom_handler sz st1 of
               Inl e \<Rightarrow> Inl e
             | Inr st2 \<Rightarrow> Inr (q, st2))
          else Inr (q, st1))"

definition ztryrealloc :: "config \<Rightarrow> ptr \<Rightarrow> size_t \<Rightarrow> answer \<Rightarrow> zstate \<Rightarrow> ptr res" where
  "ztryrealloc cfg p sz ans st =
     (case ztryrealloc_usable_internal cfg p sz ans st of
        Inl e \<Rightarrow> Inl e
      | Inr ((q, w), st1) \<Rightarrow> Inr (q, st1))"

section \<open>Aggregate usage\<close>

text \<open>
  The loop \<^verbatim>\<open>for (int i = 0; i < threads_num; i++) um += used_memory_thread[i]\<close>.
  A read outside the table stops the model with \<open>Out_of_bounds\<close>.
\<close>

function used_memory_loop :: "size_t list \<Rightarrow> int \<Rightarrow> int \<Rightarrow> size_t \<Rightarrow> halt + size_t" where
  "used_memory_loop tbl threads_num i um =
     (if i < threads_num then
        (if 0 \<le> i \<and> i < int (length tbl)
         then used_memory_loop tbl threads_num (i + 1) (um + tbl ! nat i)
         else Inl Out_of_bounds)
      else Inr um)"
  by pat_completeness auto
termination
  by (relation "measure (\<lambda>(tbl, threads_num, i, um). nat (threads_num - i))") auto

declare used_memory_loop.simps [simp del]

definition zmalloc_used_memory :: "config \<Rightarrow> zstate \<Rightarrow> halt + size_t" where
  "zmalloc_used_memory cfg st =
     (let um = 0;
          threads_num = total_active_threads st
      in if total_active_threads st > MAX_THREADS_NUM cfg then
           used_memory_loop (used_memory_thread st) (MAX_THREADS_NUM cfg) 0
             (um + used_memory_for_additional_threads st)
         else used_memory_loop (used_memory_thread st) threads_num 0 um)"

section \<open>Notions used by the properties\<close>

text \<open>
  The accounting invariant of a state, as seen by the calling thread. The table has
  its declared extent; the thread counter has not wrapped, and will not when the calling
  thread registers; the calling thread is either unregistered (\<open>- 1\<close>) or holds an
  index handed out earlier; the slots that no thread
  has been given yet, and the overflow counter while no thread is beyond the table,
  still hold their static initial value 0.
\<close>

definition acct_inv :: "config \<Rightarrow> zstate \<Rightarrow> bool" where
  "acct_inv cfg st \<longleftrightarrow>
     int (length (used_memory_thread st)) = MAX_THREADS_NUM cfg \<and>
     0 \<le> total_active_threads st \<and> total_active_threads st \<le> 2147483647 \<and>
     (thread_index st = - 1 \<longrightarrow> total_active_threads st < 2147483647) \<and>
     - 1 \<le> thread_index st \<and> thread_index st < total_active_threads st \<and>
     list_all (\<lambda>x. x = 0) (drop (nat (total_active_threads st)) (used_memory_thread st)) \<and>
     (total_active_threads st \<le> MAX_THREADS_NUM cfg \<longrightarrow>
        used_memory_for_additional_threads st = 0)"

text \<open>The sum the aggregate query is specified to return.\<close>

definition accounted_total :: "config \<Rightarrow> zstate \<Rightarrow> size_t" where
  "accounted_total cfg st =
     sum_list (take (nat (min (total_active_threads st) (MAX_THREADS_NUM cfg)))
                 (used_memory_thread st)) +
     (if total_active_threads st > MAX_THREADS_NUM cfg
      then used_memory_for_additional_threads st else 0)"

text \<open>
  The underlying allocator satisfies a request of \<open>n\<close> bytes: it returns a non-null
  pointer to a block that lies inside the address space and whose usable size, as the
  allocator reports it, is at least \<open>n\<close>.
\<close>

definition allocator_succeeds :: "size_t \<Rightarrow> answer \<Rightarrow> bool" where
  "allocator_succeeds n ans \<longleftrightarrow>
     fst ans \<noteq> 0 \<and> unat (fst ans) + unat n \<le> 18446744073709551616 \<and> n \<le> snd ans"

text \<open>
  Whether, in a history of effects, some accounting update comes before some call of the
  underlying \<^verbatim>\<open>realloc\<close>.
\<close>

fun is_realloc :: "event \<Rightarrow> bool" where
  "is_realloc (Ev_realloc p n) = True"
| "is_realloc e = False"

fun is_stat :: "event \<Rightarrow> bool" where
  "is_stat (Ev_stat_alloc n) = True"
| "is_stat (Ev_stat_free n) = True"
| "is_stat e = False"

fun stat_before_realloc :: "event list \<Rightarrow> bool" where
  "stat_before_realloc [] = False"
| "stat_before_realloc (e # es) =
     ((is_stat e \<and> list_ex is_realloc es) \<or> stat_before_realloc es)"

text \<open>
  Concrete builds and states for evaluation: a header-based libc build and a native
  jemalloc build with a table of 5 slots, the state at process start, and a state in
  which the calling thread, registered as thread 0, holds one block at address 4104
  accounted with 24 bytes: on the header-based build the underlying block is at 4096 and
  its header holds 16, on the native build the allocator reports 24 usable bytes.
\<close>

definition header_build :: config where
  "header_build = \<lparr>HAVE_MALLOC_SIZE = False, USE_JEMALLOC = False, IO_THREADS_MAX_NUM = 1\<rparr>"

definition native_build :: config where
  "native_build = \<lparr>HAVE_MALLOC_SIZE = True, USE_JEMALLOC = True, IO_THREADS_MAX_NUM = 1\<rparr>"

definition start_state :: zstate where
  "start_state =
     \<lparr>thread_index = - 1, used_memory_thread = [0, 0, 0, 0, 0], total_active_threads = 0,
      used_memory_for_additional_threads = 0, zmalloc_oom_handler = zmalloc_default_oom,
      heap_word = (\<lambda>a. 0), allocator_size = (\<lambda>a. 0), trace = []\<rparr>"

definition one_block_state :: zstate where
  "one_block_state =
     \<lparr>thread_index = 0, used_memory_thread = [24, 0, 0, 0, 0], total_active_threads = 1,
      used_memory_for_additional_threads = 0, zmalloc_oom_handler = zmalloc_default_oom,
      heap_word = (\<lambda>a. if a = 4096 then 16 else 0),
      allocator_size = (\<lambda>a. if a = 4104 then 24 else 0), trace = []\<rparr>"

text \<open>
  The index under which the calling thread accounts: the one it holds, or, when it is
  not registered yet, the one its first accounting update hands out to it.
\<close>

definition caller_index :: "zstate \<Rightarrow> int" where
  "caller_index st =
     (if thread_index st = - 1 then total_active_threads st else thread_index st)"

text \<open>
  A state in which the calling thread is thread 2 of three and holds the block of
  \<open>one_block_state\<close>, while thread 0 accounts for 100 bytes.
\<close>

definition third_thread_state :: zstate where
  "third_thread_state =
     \<lparr>thread_index = 2, used_memory_thread = [100, 0, 24, 0, 0], total_active_threads = 3,
      used_memory_for_additional_threads = 0, zmalloc_oom_handler = zmalloc_default_oom,
      heap_word = (\<lambda>a. if a = 4096 then 16 else 0),
      allocator_size = (\<lambda>a. if a = 4104 then 24 else 0), trace = []\<rparr>"

text \<open>A state with 7 registered threads on a table of 5 slots.\<close>

definition crowded_state :: zstate where
  "crowded_state =
     \<lparr>thread_index = 6, used_memory_thread = [1, 2, 3, 4, 5], total_active_threads = 7,
      used_memory_for_additional_threads = 100, zmalloc_oom_handler = zmalloc_default_oom,
      heap_word = (\<lambda>a. 0), allocator_size = (\<lambda>a. 0), trace = []\<rparr>"

section \<open>The aggregate query in closed form\<close>

lemma sum_list_update_ring:
  fixes xs :: "('a::ab_group_add) list"
  shows "i < length xs \<Longrightarrow> sum_list (xs[i := v]) = sum_list xs - xs ! i + v"
proof (induction xs arbitrary: i)
  case Nil
  then show ?case by simp
next
  case (Cons x xs)
  show ?case
  proof (cases i)
    case 0
    then show ?thesis by simp
  next
    case (Suc j)
    with Cons.prems have "j < length xs" by simp
    from Cons.IH [OF this] Suc show ?thesis by (simp add: algebra_simps)
  qed
qed

lemma sum_take_update:
  fixes xs :: "('a::ab_group_add) list"
  shows "i < k \<Longrightarrow> i < length xs \<Longrightarrow> sum_list (take k (xs[i := v])) = sum_list (take k xs) - xs ! i + v"
  by (simp add: take_update_swap sum_list_update_ring)

lemma used_memory_loop_closed:
  "threads_num \<le> int (length tbl) \<Longrightarrow> 0 \<le> i \<Longrightarrow>
   used_memory_loop tbl threads_num i um =
     Inr (um + sum_list (drop (nat i) (take (nat threads_num) tbl)))"
proof (induction tbl threads_num i um rule: used_memory_loop.induct)
  case (1 tbl threads_num i um)
  show ?case
  proof (cases "i < threads_num")
    case True
    with "1.prems" have b: "0 \<le> i \<and> i < int (length tbl)" by simp
    have n: "nat i < length (take (nat threads_num) tbl)" using True "1.prems" by simp
    have d: "drop (nat i) (take (nat threads_num) tbl) =
             tbl ! nat i # drop (nat (i + 1)) (take (nat threads_num) tbl)"
      using Cons_nth_drop_Suc [OF n] True "1.prems" by (simp add: nat_add_distrib)
    have "used_memory_loop tbl threads_num i um =
          used_memory_loop tbl threads_num (i + 1) (um + tbl ! nat i)"
      using True b by (subst used_memory_loop.simps) simp
    also have "\<dots> = Inr (um + tbl ! nat i + sum_list (drop (nat (i + 1)) (take (nat threads_num) tbl)))"
      using "1.IH" [OF True b] "1.prems" by simp
    finally show ?thesis by (simp add: d add.assoc)
  next
    case False
    then show ?thesis using "1.prems" by (subst used_memory_loop.simps) simp
  qed
qed

lemma zmalloc_used_memory_closed:
  "int (length (used_memory_thread st)) = MAX_THREADS_NUM cfg \<Longrightarrow>
   zmalloc_used_memory cfg st = Inr (accounted_total cfg st)"
  by (simp add: zmalloc_used_memory_def accounted_total_def used_memory_loop_closed min_def Let_def)

section \<open>Accounting updates preserve the invariant\<close>

lemma atomic_int_add_small:
  "0 \<le> a \<Longrightarrow> a < 2147483647 \<Longrightarrow> atomic_int_add a 1 = a + 1"
  by (simp add: atomic_int_add_def)

lemma sum_take_Suc_update:
  fixes xs :: "size_t list"
  shows "k < length xs \<Longrightarrow> sum_list (take (Suc k) (xs[k := v])) = sum_list (take k xs) + v"
  by (simp add: take_Suc_conv_app_nth)

lemma drop_zero_nth:
  "list_all (\<lambda>x. x = (0::size_t)) (drop k xs) \<Longrightarrow> k < length xs \<Longrightarrow> xs ! k = 0"
proof -
  assume a: "list_all (\<lambda>x. x = (0::size_t)) (drop k xs)" and b: "k < length xs"
  from b have "xs ! k \<in> set (drop k xs)"
    by (metis Cons_nth_drop_Suc list.set_intros(1))
  with a show ?thesis by (simp add: list_all_iff)
qed

lemma drop_zero_Suc:
  assumes "list_all (\<lambda>x. x = (0::size_t)) (drop k xs)"
  shows "list_all (\<lambda>x. x = 0) (drop (Suc k) (xs[k := v]))"
proof -
  have "set (drop (Suc k) xs) \<subseteq> set (drop k xs)"
    by (simp add: set_drop_subset_set_drop)
  with assms show ?thesis by (auto simp: list_all_iff)
qed

lemma stat_alloc_registered:
  assumes inv: "acct_inv cfg st" and reg: "thread_index st \<noteq> - 1"
  shows "\<exists>st'. update_zmalloc_stat_alloc cfg n st = Inr st' \<and> acct_inv cfg st' \<and>
           accounted_total cfg st' = accounted_total cfg st + n \<and>
           trace st' = trace st @ [Ev_stat_alloc n] \<and>
           heap_word st' = heap_word st \<and> allocator_size st' = allocator_size st \<and>
           zmalloc_oom_handler st' = zmalloc_oom_handler st"
proof (cases "MAX_THREADS_NUM cfg \<le> thread_index st")
  case True
  with inv reg show ?thesis
    by (simp add: update_zmalloc_stat_alloc_def acct_inv_def accounted_total_def Let_def)
next
  case False
  from inv reg have i0: "0 \<le> thread_index st" by (simp add: acct_inv_def)
  from inv have len: "int (length (used_memory_thread st)) = MAX_THREADS_NUM cfg"
    by (simp add: acct_inv_def)
  from inv have lt: "thread_index st < total_active_threads st" by (simp add: acct_inv_def)
  have a: "nat (thread_index st) < nat (min (total_active_threads st) (MAX_THREADS_NUM cfg))"
    using False i0 lt by simp
  have b: "nat (thread_index st) < length (used_memory_thread st)"
    using False i0 len by simp
  have c: "nat (thread_index st) < nat (total_active_threads st)"
    using i0 lt by simp
  show ?thesis
    using False inv reg i0 len a b c
    by (simp add: update_zmalloc_stat_alloc_def acct_inv_def accounted_total_def Let_def
        sum_take_update)
qed

lemma stat_alloc_unregistered:
  assumes inv: "acct_inv cfg st" and reg: "thread_index st = - 1"
  shows "\<exists>st'. update_zmalloc_stat_alloc cfg n st = Inr st' \<and> acct_inv cfg st' \<and>
           accounted_total cfg st' = accounted_total cfg st + n \<and>
           trace st' = trace st @ [Ev_stat_alloc n] \<and>
           heap_word st' = heap_word st \<and> allocator_size st' = allocator_size st \<and>
           zmalloc_oom_handler st' = zmalloc_oom_handler st"
proof -
  let ?t = "total_active_threads st"
  let ?tbl = "used_memory_thread st"
  from inv have t0: "0 \<le> ?t" and t1: "?t < 2147483647"
    and len: "int (length ?tbl) = MAX_THREADS_NUM cfg"
    and z: "list_all (\<lambda>x. x = 0) (drop (nat ?t) ?tbl)"
    and ov: "?t \<le> MAX_THREADS_NUM cfg \<longrightarrow> used_memory_for_additional_threads st = 0"
    using reg by (simp_all add: acct_inv_def)
  have w: "atomic_int_add ?t 1 = ?t + 1"
    using t0 t1 by (rule atomic_int_add_small)
  show ?thesis
  proof (cases "MAX_THREADS_NUM cfg \<le> ?t")
    case True
    with reg t0 t1 len z ov w show ?thesis
      by (auto simp: update_zmalloc_stat_alloc_def zmalloc_register_thread_index_def
          acct_inv_def accounted_total_def Let_def)
  next
    case False
    have b: "nat ?t < length ?tbl" using False t0 len by simp
    have zero: "?tbl ! nat ?t = 0" using z b by (rule drop_zero_nth)
    have m1: "nat (min (?t + 1) (MAX_THREADS_NUM cfg)) = Suc (nat ?t)"
      using False t0 by simp
    have m0: "nat (min ?t (MAX_THREADS_NUM cfg)) = nat ?t"
      using False t0 by simp
    have s: "nat (?t + 1) = Suc (nat ?t)" using t0 by simp
    have z': "list_all (\<lambda>x. x = 0) (drop (Suc (nat ?t)) (?tbl[nat ?t := n]))"
      using z by (rule drop_zero_Suc)
    have sm: "sum_list (take (Suc (nat ?t)) (?tbl[nat ?t := n])) = sum_list (take (nat ?t) ?tbl) + n"
      using b by (rule sum_take_Suc_update)
    show ?thesis
      using False reg t0 t1 len ov w b zero z' sm
      by (simp add: update_zmalloc_stat_alloc_def zmalloc_register_thread_index_def
          acct_inv_def accounted_total_def Let_def m1 m0 s)
  qed
qed

lemma stat_alloc_acct:
  assumes inv: "acct_inv cfg st"
  shows "\<exists>st'. update_zmalloc_stat_alloc cfg n st = Inr st' \<and> acct_inv cfg st' \<and>
           accounted_total cfg st' = accounted_total cfg st + n \<and>
           trace st' = trace st @ [Ev_stat_alloc n] \<and>
           heap_word st' = heap_word st \<and> allocator_size st' = allocator_size st \<and>
           zmalloc_oom_handler st' = zmalloc_oom_handler st"
  using stat_alloc_registered [OF inv] stat_alloc_unregistered [OF inv]
  by (cases "thread_index st = - 1") blast+

lemma stat_free_registered:
  assumes inv: "acct_inv cfg st" and reg: "thread_index st \<noteq> - 1"
  shows "\<exists>st'. update_zmalloc_stat_free cfg n st = Inr st' \<and> acct_inv cfg st' \<and>
           accounted_total cfg st' = accounted_total cfg st - n \<and>
           trace st' = trace st @ [Ev_stat_free n] \<and>
           heap_word st' = heap_word st \<and> allocator_size st' = allocator_size st \<and>
           zmalloc_oom_handler st' = zmalloc_oom_handler st"
proof (cases "MAX_THREADS_NUM cfg \<le> thread_index st")
  case True
  with inv reg show ?thesis
    by (simp add: update_zmalloc_stat_free_def acct_inv_def accounted_total_def Let_def)
next
  case False
  from inv reg have i0: "0 \<le> thread_index st" by (simp add: acct_inv_def)
  from inv have len: "int (length (used_memory_thread st)) = MAX_THREADS_NUM cfg"
    by (simp add: acct_inv_def)
  from inv have lt: "thread_index st < total_active_threads st" by (simp add: acct_inv_def)
  have a: "nat (thread_index st) < nat (min (total_active_threads st) (MAX_THREADS_NUM cfg))"
    using False i0 lt by simp
  have b: "nat (thread_index st) < length (used_memory_thread st)"
    using False i0 len by simp
  have c: "nat (thread_index st) < nat (total_active_threads st)"
    using i0 lt by simp
  show ?thesis
    using False inv reg i0 len a b c
    by (simp add: update_zmalloc_stat_free_def acct_inv_def accounted_total_def Let_def
        sum_take_update)
qed

lemma stat_free_unregistered:
  assumes inv: "acct_inv cfg st" and reg: "thread_index st = - 1"
  shows "\<exists>st'. update_zmalloc_stat_free cfg n st = Inr st' \<and> acct_inv cfg st' \<and>
           accounted_total cfg st' = accounted_total cfg st - n \<and>
           trace st' = trace st @ [Ev_stat_free n] \<and>
           heap_word st' = heap_word st \<and> allocator_size st' = allocator_size st \<and>
           zmalloc_oom_handler st' = zmalloc_oom_handler st"
proof -
  let ?t = "total_active_threads st"
  let ?tbl = "used_memory_thread st"
  from inv have t0: "0 \<le> ?t" and t1: "?t < 2147483647"
    and len: "int (length ?tbl) = MAX_THREADS_NUM cfg"
    and z: "list_all (\<lambda>x. x = 0) (drop (nat ?t) ?tbl)"
    and ov: "?t \<le> MAX_THREADS_NUM cfg \<longrightarrow> used_memory_for_additional_threads st = 0"
    using reg by (simp_all add: acct_inv_def)
  have w: "atomic_int_add ?t 1 = ?t + 1"
    using t0 t1 by (rule atomic_int_add_small)
  show ?thesis
  proof (cases "MAX_THREADS_NUM cfg \<le> ?t")
    case True
    with reg t0 t1 len z ov w show ?thesis
      by (auto simp: update_zmalloc_stat_free_def zmalloc_register_thread_index_def
          acct_inv_def accounted_total_def Let_def)
  next
    case False
    have b: "nat ?t < length ?tbl" using False t0 len by simp
    have zero: "?tbl ! nat ?t = 0" using z b by (rule drop_zero_nth)
    have m1: "nat (min (?t + 1) (MAX_THREADS_NUM cfg)) = Suc (nat ?t)"
      using False t0 by simp
    have m0: "nat (min ?t (MAX_THREADS_NUM cfg)) = nat ?t"
      using False t0 by simp
    have s: "nat (?t + 1) = Suc (nat ?t)" using t0 by simp
    have z': "list_all (\<lambda>x. x = 0) (drop (Suc (nat ?t)) (?tbl[nat ?t := - n]))"
      using z by (rule drop_zero_Suc)
    have sm: "sum_list (take (Suc (nat ?t)) (?tbl[nat ?t := - n])) = sum_list (take (nat ?t) ?tbl) - n"
      using sum_take_Suc_update [OF b, of "- n"] by simp
    show ?thesis
      using False reg t0 t1 len ov w b zero z' sm
      by (simp add: update_zmalloc_stat_free_def zmalloc_register_thread_index_def
          acct_inv_def accounted_total_def Let_def m1 m0 s)
  qed
qed

lemma stat_free_acct:
  assumes inv: "acct_inv cfg st"
  shows "\<exists>st'. update_zmalloc_stat_free cfg n st = Inr st' \<and> acct_inv cfg st' \<and>
           accounted_total cfg st' = accounted_total cfg st - n \<and>
           trace st' = trace st @ [Ev_stat_free n] \<and>
           heap_word st' = heap_word st \<and> allocator_size st' = allocator_size st \<and>
           zmalloc_oom_handler st' = zmalloc_oom_handler st"
  using stat_free_registered [OF inv] stat_free_unregistered [OF inv]
  by (cases "thread_index st = - 1") blast+


section \<open>Successful allocation and release\<close>

lemma ztrymalloc_internal_success:
  assumes s: "s < SIZE_MAX div 2" and p: "fst ans \<noteq> 0" and inv: "acct_inv cfg st"
  shows "\<exists>st'. ztrymalloc_usable_internal cfg s ans st =
             Inr ((fst ans + PREFIX_SIZE cfg,
                   Some (if HAVE_MALLOC_SIZE cfg then snd ans else MALLOC_MIN_SIZE s)), st') \<and>
           acct_inv cfg st' \<and>
           accounted_total cfg st' = accounted_total cfg st +
             (if HAVE_MALLOC_SIZE cfg then snd ans else MALLOC_MIN_SIZE s + PREFIX_SIZE cfg) \<and>
           trace st' = trace st @
             [Ev_malloc (MALLOC_MIN_SIZE s + PREFIX_SIZE cfg),
              Ev_stat_alloc (if HAVE_MALLOC_SIZE cfg then snd ans
                             else MALLOC_MIN_SIZE s + PREFIX_SIZE cfg)] \<and>
           heap_word st' = (if HAVE_MALLOC_SIZE cfg then heap_word st
                            else (heap_word st)(fst ans := MALLOC_MIN_SIZE s)) \<and>
           allocator_size st' = (allocator_size st)(fst ans := snd ans) \<and>
           zmalloc_oom_handler st' = zmalloc_oom_handler st"
proof (cases "HAVE_MALLOC_SIZE cfg")
  case True
  let ?st1 = "snd (malloc (MALLOC_MIN_SIZE s + PREFIX_SIZE cfg) ans st)"
  have inv1: "acct_inv cfg ?st1"
    using inv p by (simp add: malloc_def note_block_def acct_inv_def)
  from stat_alloc_acct [OF inv1, of "snd ans"] obtain st' where
    st': "update_zmalloc_stat_alloc cfg (snd ans) ?st1 = Inr st'" "acct_inv cfg st'"
      "accounted_total cfg st' = accounted_total cfg ?st1 + snd ans"
      "trace st' = trace ?st1 @ [Ev_stat_alloc (snd ans)]"
      "heap_word st' = heap_word ?st1" "allocator_size st' = allocator_size ?st1"
      "zmalloc_oom_handler st' = zmalloc_oom_handler ?st1"
    by blast
  have tot: "accounted_total cfg ?st1 = accounted_total cfg st"
    using p by (simp add: malloc_def note_block_def accounted_total_def)
  show ?thesis
    using True s p st' tot
    by (simp add: ztrymalloc_usable_internal_def PREFIX_SIZE_def zmalloc_size_def
        malloc_def note_block_def Let_def)
next
  case False
  let ?st1 = "snd (malloc (MALLOC_MIN_SIZE s + PREFIX_SIZE cfg) ans st)"
  let ?st2 = "?st1\<lparr>heap_word := (heap_word ?st1)(fst ans := MALLOC_MIN_SIZE s)\<rparr>"
  have inv1: "acct_inv cfg ?st2"
    using inv p by (simp add: malloc_def note_block_def acct_inv_def)
  from stat_alloc_acct [OF inv1, of "MALLOC_MIN_SIZE s + PREFIX_SIZE cfg"] obtain st' where
    st': "update_zmalloc_stat_alloc cfg (MALLOC_MIN_SIZE s + PREFIX_SIZE cfg) ?st2 = Inr st'"
      "acct_inv cfg st'"
      "accounted_total cfg st' = accounted_total cfg ?st2 + (MALLOC_MIN_SIZE s + PREFIX_SIZE cfg)"
      "trace st' = trace ?st2 @ [Ev_stat_alloc (MALLOC_MIN_SIZE s + PREFIX_SIZE cfg)]"
      "heap_word st' = heap_word ?st2" "allocator_size st' = allocator_size ?st2"
      "zmalloc_oom_handler st' = zmalloc_oom_handler ?st2"
    by blast
  have tot: "accounted_total cfg ?st2 = accounted_total cfg st"
    using p by (simp add: malloc_def note_block_def accounted_total_def)
  show ?thesis
    using False s p st' tot
    by (simp add: ztrymalloc_usable_internal_def malloc_def note_block_def Let_def)
qed

lemma zfree_success:
  assumes p: "p \<noteq> 0" and rp: "p - PREFIX_SIZE cfg \<noteq> 0" and inv: "acct_inv cfg st"
  shows "\<exists>st'. zfree cfg p st = Inr st' \<and> acct_inv cfg st' \<and>
           accounted_total cfg st' = accounted_total cfg st - zmalloc_size cfg st p \<and>
           trace st' = trace st @
             [Ev_stat_free (zmalloc_size cfg st p),
              if USE_JEMALLOC cfg then Ev_sdallocx (p - PREFIX_SIZE cfg) (zmalloc_size cfg st p)
              else Ev_free (p - PREFIX_SIZE cfg)] \<and>
           heap_word st' = heap_word st \<and> allocator_size st' = allocator_size st \<and>
           zmalloc_oom_handler st' = zmalloc_oom_handler st"
proof -
  from stat_free_acct [OF inv, of "zmalloc_size cfg st p"] obtain st1 where
    st1: "update_zmalloc_stat_free cfg (zmalloc_size cfg st p) st = Inr st1" "acct_inv cfg st1"
      "accounted_total cfg st1 = accounted_total cfg st - zmalloc_size cfg st p"
      "trace st1 = trace st @ [Ev_stat_free (zmalloc_size cfg st p)]"
      "heap_word st1 = heap_word st" "allocator_size st1 = allocator_size st"
      "zmalloc_oom_handler st1 = zmalloc_oom_handler st"
    by blast
  have z: "zfree cfg p st = zfree_internal cfg (p - PREFIX_SIZE cfg) (zmalloc_size cfg st p) st"
    using p by (simp add: zfree_def zmalloc_size_def PREFIX_SIZE_def Let_def)
  let ?st' = "if USE_JEMALLOC cfg
              then je_sdallocx (p - PREFIX_SIZE cfg) (zmalloc_size cfg st p) st1
              else free (p - PREFIX_SIZE cfg) st1"
  have r: "zfree cfg p st = Inr ?st'"
    using rp st1(1) by (simp add: z zfree_internal_def)
  have i: "acct_inv cfg ?st' = acct_inv cfg st1"
    by (simp add: acct_inv_def je_sdallocx_def free_def)
  have t: "accounted_total cfg ?st' = accounted_total cfg st1"
    by (simp add: accounted_total_def je_sdallocx_def free_def)
  have o: "trace ?st' = trace st1 @
             [if USE_JEMALLOC cfg then Ev_sdallocx (p - PREFIX_SIZE cfg) (zmalloc_size cfg st p)
              else Ev_free (p - PREFIX_SIZE cfg)]"
    "heap_word ?st' = heap_word st1" "allocator_size ?st' = allocator_size st1"
    "zmalloc_oom_handler ?st' = zmalloc_oom_handler st1"
    by (simp_all add: je_sdallocx_def free_def)
  show ?thesis
    using r i t o st1 by simp
qed

lemma used_memory_inv:
  "acct_inv cfg st \<Longrightarrow> zmalloc_used_memory cfg st = Inr (accounted_total cfg st)"
  by (simp add: zmalloc_used_memory_closed acct_inv_def)

lemma MALLOC_MIN_SIZE_ge: "s \<le> MALLOC_MIN_SIZE s"
  by (simp add: MALLOC_MIN_SIZE_def word_gt_0)

lemma MALLOC_MIN_SIZE_pos: "MALLOC_MIN_SIZE s \<noteq> 0"
  by (simp add: MALLOC_MIN_SIZE_def sizeof_long_def word_gt_0)

lemma MALLOC_MIN_SIZE_small:
  "s < SIZE_MAX div 2 \<Longrightarrow> MALLOC_MIN_SIZE s < SIZE_MAX div 2"
  by (simp add: MALLOC_MIN_SIZE_def sizeof_long_def SIZE_MAX_def)

lemma prefix_nonnull:
  fixes p m :: size_t
  assumes a: "m < SIZE_MAX div 2" and b: "m \<noteq> 0"
      and c: "unat p + unat (m + 8) \<le> 18446744073709551616"
  shows "p + 8 \<noteq> 0"
proof
  assume "p + 8 = 0"
  then have "p = - 8" by (rule eq_neg_iff_add_eq_0 [THEN iffD2])
  then have up: "unat p = 18446744073709551608" by simp
  have um: "unat m < 9223372036854775807"
    using a by (simp add: word_less_nat_alt SIZE_MAX_def)
  have "unat m + unat (8 :: size_t) < 2 ^ LENGTH(64)" using um by simp
  then have s: "unat (m + 8) = unat m + 8"
    by (simp add: unat_add_lem [THEN iffD1])
  have "unat m \<noteq> 0" using b by (simp add: unat_eq_0)
  with c up s show False by simp
qed

lemma MALLOC_MIN_SIZE_cases: "MALLOC_MIN_SIZE s = (if s = 0 then sizeof_long else s)"
  by (simp add: MALLOC_MIN_SIZE_def word_gt_0)

lemma caller_index_bounds:
  assumes inv: "acct_inv cfg st"
  shows "0 \<le> caller_index st"
    and "caller_index st < MAX_THREADS_NUM cfg \<Longrightarrow> nat (caller_index st) < length (used_memory_thread st)"
  using inv by (auto simp: acct_inv_def caller_index_def)

lemma stat_alloc_fields:
  assumes inv: "acct_inv cfg st"
  shows "\<exists>st'. update_zmalloc_stat_alloc cfg n st = Inr st' \<and>
           thread_index st' = caller_index st \<and>
           total_active_threads st' =
             (if thread_index st = - 1 then total_active_threads st + 1
              else total_active_threads st) \<and>
           used_memory_thread st' =
             (if MAX_THREADS_NUM cfg \<le> caller_index st then used_memory_thread st
              else (used_memory_thread st)
                     [nat (caller_index st) :=
                        used_memory_thread st ! nat (caller_index st) + n]) \<and>
           used_memory_for_additional_threads st' =
             (if MAX_THREADS_NUM cfg \<le> caller_index st
              then used_memory_for_additional_threads st + n
              else used_memory_for_additional_threads st)"
proof -
  from inv have t0: "0 \<le> total_active_threads st"
    and len: "int (length (used_memory_thread st)) = MAX_THREADS_NUM cfg"
    and ti: "- 1 \<le> thread_index st"
    and w: "thread_index st = - 1 \<longrightarrow> atomic_int_add (total_active_threads st) 1 = total_active_threads st + 1"
    by (simp_all add: acct_inv_def atomic_int_add_small)
  show ?thesis
  proof (cases "thread_index st = - 1")
    case True
    with t0 len w show ?thesis
      by (simp add: update_zmalloc_stat_alloc_def zmalloc_register_thread_index_def
          caller_index_def Let_def)
  next
    case False
    with ti have "0 \<le> thread_index st" by simp
    with False len show ?thesis
      by (simp add: update_zmalloc_stat_alloc_def caller_index_def Let_def)
  qed
qed

lemma stat_free_fields:
  assumes inv: "acct_inv cfg st"
  shows "\<exists>st'. update_zmalloc_stat_free cfg n st = Inr st' \<and>
           thread_index st' = caller_index st \<and>
           total_active_threads st' =
             (if thread_index st = - 1 then total_active_threads st + 1
              else total_active_threads st) \<and>
           used_memory_thread st' =
             (if MAX_THREADS_NUM cfg \<le> caller_index st then used_memory_thread st
              else (used_memory_thread st)
                     [nat (caller_index st) :=
                        used_memory_thread st ! nat (caller_index st) - n]) \<and>
           used_memory_for_additional_threads st' =
             (if MAX_THREADS_NUM cfg \<le> caller_index st
              then used_memory_for_additional_threads st - n
              else used_memory_for_additional_threads st)"
proof -
  from inv have t0: "0 \<le> total_active_threads st"
    and len: "int (length (used_memory_thread st)) = MAX_THREADS_NUM cfg"
    and ti: "- 1 \<le> thread_index st"
    and w: "thread_index st = - 1 \<longrightarrow> atomic_int_add (total_active_threads st) 1 = total_active_threads st + 1"
    by (simp_all add: acct_inv_def atomic_int_add_small)
  show ?thesis
  proof (cases "thread_index st = - 1")
    case True
    with t0 len w show ?thesis
      by (simp add: update_zmalloc_stat_free_def zmalloc_register_thread_index_def
          caller_index_def Let_def)
  next
    case False
    with ti have "0 \<le> thread_index st" by simp
    with False len show ?thesis
      by (simp add: update_zmalloc_stat_free_def caller_index_def Let_def)
  qed
qed

lemma ztryrealloc_internal_success:
  assumes p: "p \<noteq> 0" and sz0: "sz \<noteq> 0" and sz1: "sz < SIZE_MAX div 2"
      and ok: "fst ans \<noteq> 0" and inv: "acct_inv cfg st"
  shows "\<exists>st'. ztryrealloc_usable_internal cfg p sz ans st =
             Inr ((fst ans + PREFIX_SIZE cfg,
                   Some (if HAVE_MALLOC_SIZE cfg then snd ans else sz)), st') \<and>
           acct_inv cfg st' \<and>
           accounted_total cfg st' = accounted_total cfg st - zmalloc_usable_size cfg st p +
             (if HAVE_MALLOC_SIZE cfg then snd ans else sz) \<and>
           trace st' = trace st @
             [Ev_realloc (p - PREFIX_SIZE cfg) (sz + PREFIX_SIZE cfg),
              Ev_stat_free (zmalloc_usable_size cfg st p),
              Ev_stat_alloc (if HAVE_MALLOC_SIZE cfg then snd ans else sz)] \<and>
           zmalloc_usable_size cfg st' (fst ans + PREFIX_SIZE cfg) =
             (if HAVE_MALLOC_SIZE cfg then snd ans else sz) \<and>
           thread_index st' = caller_index st \<and>
           total_active_threads st' =
             (if thread_index st = - 1 then total_active_threads st + 1
              else total_active_threads st) \<and>
           used_memory_thread st' =
             (if MAX_THREADS_NUM cfg \<le> caller_index st then used_memory_thread st
              else (used_memory_thread st)
                     [nat (caller_index st) :=
                        used_memory_thread st ! nat (caller_index st)
                          - zmalloc_usable_size cfg st p
                          + (if HAVE_MALLOC_SIZE cfg then snd ans else sz)]) \<and>
           used_memory_for_additional_threads st' =
             (if MAX_THREADS_NUM cfg \<le> caller_index st
              then used_memory_for_additional_threads st
                     - zmalloc_usable_size cfg st p
                     + (if HAVE_MALLOC_SIZE cfg then snd ans else sz)
              else used_memory_for_additional_threads st) \<and>
           zmalloc_oom_handler st' = zmalloc_oom_handler st \<and>
           heap_word st' =
             (heap_word st)
               (p - PREFIX_SIZE cfg := freed_word,
                fst ans := (if HAVE_MALLOC_SIZE cfg then heap_word st (p - PREFIX_SIZE cfg)
                            else sz)) \<and>
           allocator_size st' =
             (allocator_size st)(p - PREFIX_SIZE cfg := freed_word, fst ans := snd ans)"
proof -
  let ?old = "zmalloc_usable_size cfg st p"
  let ?new = "if HAVE_MALLOC_SIZE cfg then snd ans else sz"
  let ?rp = "p - PREFIX_SIZE cfg"
  let ?i = "caller_index st"
  let ?st1 = "snd (realloc ?rp (sz + PREFIX_SIZE cfg) ans st)"
  let ?st2 = "if HAVE_MALLOC_SIZE cfg then ?st1
              else ?st1\<lparr>heap_word := (heap_word ?st1)(fst ans := sz)\<rparr>"
  have inv2: "acct_inv cfg ?st2"
    using inv by (simp add: realloc_def acct_inv_def)
  have tot2: "accounted_total cfg ?st2 = accounted_total cfg st"
    by (simp add: realloc_def accounted_total_def)
  have tr2: "trace ?st2 = trace st @ [Ev_realloc ?rp (sz + PREFIX_SIZE cfg)]"
    by (simp add: realloc_def)
  have hw2: "heap_word ?st2 =
             (heap_word st)(?rp := freed_word,
                fst ans := (if HAVE_MALLOC_SIZE cfg then heap_word st ?rp else sz))"
    using ok by (simp add: realloc_def)
  have as2: "allocator_size ?st2 = (allocator_size st)(?rp := freed_word, fst ans := snd ans)"
    using ok by (simp add: realloc_def)
  have acc2: "thread_index ?st2 = thread_index st"
    "total_active_threads ?st2 = total_active_threads st"
    "used_memory_thread ?st2 = used_memory_thread st"
    "used_memory_for_additional_threads ?st2 = used_memory_for_additional_threads st"
    "zmalloc_oom_handler ?st2 = zmalloc_oom_handler st"
    "caller_index ?st2 = ?i"
    by (simp_all add: realloc_def caller_index_def)
  from stat_free_acct [OF inv2, of ?old] obtain st3 where
    st3: "update_zmalloc_stat_free cfg ?old ?st2 = Inr st3" "acct_inv cfg st3"
      "accounted_total cfg st3 = accounted_total cfg ?st2 - ?old"
      "trace st3 = trace ?st2 @ [Ev_stat_free ?old]"
      "heap_word st3 = heap_word ?st2" "allocator_size st3 = allocator_size ?st2"
      "zmalloc_oom_handler st3 = zmalloc_oom_handler ?st2"
    by blast
  from stat_free_fields [OF inv2, of ?old] st3(1) have
    f3: "thread_index st3 = ?i"
      "total_active_threads st3 =
         (if thread_index st = - 1 then total_active_threads st + 1
          else total_active_threads st)"
      "used_memory_thread st3 =
             (if MAX_THREADS_NUM cfg \<le> ?i then used_memory_thread st
              else (used_memory_thread st)[nat ?i := used_memory_thread st ! nat ?i - ?old])"
      "used_memory_for_additional_threads st3 =
             (if MAX_THREADS_NUM cfg \<le> ?i then used_memory_for_additional_threads st - ?old
              else used_memory_for_additional_threads st)"
    by (auto simp only: acc2 sum.inject)
  have i0: "0 \<le> ?i" and ilen: "?i < MAX_THREADS_NUM cfg \<Longrightarrow> nat ?i < length (used_memory_thread st)"
    using caller_index_bounds [OF inv] by blast+
  have reg3: "thread_index st3 \<noteq> - 1" using f3(1) i0 by simp
  then have ci3: "caller_index st3 = ?i" using f3(1) by (simp add: caller_index_def)
  from stat_alloc_acct [OF st3(2), of ?new] obtain st4 where
    st4: "update_zmalloc_stat_alloc cfg ?new st3 = Inr st4" "acct_inv cfg st4"
      "accounted_total cfg st4 = accounted_total cfg st3 + ?new"
      "trace st4 = trace st3 @ [Ev_stat_alloc ?new]"
      "heap_word st4 = heap_word st3" "allocator_size st4 = allocator_size st3"
      "zmalloc_oom_handler st4 = zmalloc_oom_handler st3"
    by blast
  from stat_alloc_fields [OF st3(2), of ?new] st4(1) have
    f4: "thread_index st4 = caller_index st3"
      "total_active_threads st4 =
         (if thread_index st3 = - 1 then total_active_threads st3 + 1
          else total_active_threads st3)"
      "used_memory_thread st4 =
             (if MAX_THREADS_NUM cfg \<le> caller_index st3 then used_memory_thread st3
              else (used_memory_thread st3)
                     [nat (caller_index st3) :=
                        used_memory_thread st3 ! nat (caller_index st3) + ?new])"
      "used_memory_for_additional_threads st4 =
             (if MAX_THREADS_NUM cfg \<le> caller_index st3
              then used_memory_for_additional_threads st3 + ?new
              else used_memory_for_additional_threads st3)"
    by (auto simp only: sum.inject)
  have g1: "thread_index st4 = ?i" by (simp only: f4(1) ci3)
  have g2: "total_active_threads st4 =
         (if thread_index st = - 1 then total_active_threads st + 1
          else total_active_threads st)"
    using reg3 by (simp only: f4(2) f3(2) if_False)
  have g3: "used_memory_thread st4 =
             (if MAX_THREADS_NUM cfg \<le> ?i then used_memory_thread st
              else (used_memory_thread st)
                     [nat ?i := used_memory_thread st ! nat ?i - ?old + ?new])"
  proof (cases "MAX_THREADS_NUM cfg \<le> ?i")
    case True
    then show ?thesis by (simp add: f4(3) ci3 f3(3))
  next
    case False
    then have "nat ?i < length (used_memory_thread st)" using ilen by simp
    with False show ?thesis by (simp add: f4(3) ci3 f3(3))
  qed
  have g4: "used_memory_for_additional_threads st4 =
             (if MAX_THREADS_NUM cfg \<le> ?i
              then used_memory_for_additional_threads st - ?old + ?new
              else used_memory_for_additional_threads st)"
    by (simp add: f4(4) ci3 f3(4))
  have g5: "zmalloc_oom_handler st4 = zmalloc_oom_handler st"
    by (simp only: st4(7) st3(7) acc2(5))
  have g6: "heap_word st4 =
             (heap_word st)(?rp := freed_word,
                fst ans := (if HAVE_MALLOC_SIZE cfg then heap_word st ?rp else sz))"
    by (simp only: st4(5) st3(5) hw2)
  have g7: "allocator_size st4 = (allocator_size st)(?rp := freed_word, fst ans := snd ans)"
    by (simp only: st4(6) st3(6) as2)
  have old: "?old = (if HAVE_MALLOC_SIZE cfg then zmalloc_size cfg st p else heap_word st ?rp)"
    by (simp add: zmalloc_usable_size_def zmalloc_size_def Let_def)
  have fr: "\<And>a b. fst (realloc a b ans st) = fst ans"
    by (simp add: realloc_def)
  have ng: "\<not> SIZE_MAX div 2 \<le> sz"
    using sz1 by simp
  have r: "ztryrealloc_usable_internal cfg p sz ans st =
             Inr ((fst ans + PREFIX_SIZE cfg, Some ?new), st4)"
  proof (cases "HAVE_MALLOC_SIZE cfg")
    case True
    have zs: "zmalloc_size cfg st3 (fst ans) = snd ans"
      using True as2 st3(6) by (simp add: zmalloc_size_def)
    have f: "update_zmalloc_stat_free cfg (zmalloc_size cfg st p) ?st1 = Inr st3"
      using st3(1) True old by simp
    have a: "update_zmalloc_stat_alloc cfg (snd ans) st3 = Inr st4"
      using st4(1) True by simp
    show ?thesis
      using True p sz0 ng ok
      by (simp add: ztryrealloc_usable_internal_def PREFIX_SIZE_def Let_def fr
          f [simplified PREFIX_SIZE_def True, simplified] zs a prod.case_eq_if)
  next
    case False
    have f: "update_zmalloc_stat_free cfg (heap_word st ?rp)
               (?st1\<lparr>heap_word := (heap_word ?st1)(fst ans := sz)\<rparr>) = Inr st3"
      using st3(1) False old by simp
    have a: "update_zmalloc_stat_alloc cfg sz st3 = Inr st4"
      using st4(1) False by simp
    show ?thesis
      using False p sz0 ng ok
      by (simp add: ztryrealloc_usable_internal_def Let_def prod.case_eq_if fr f a)
  qed
  have us: "zmalloc_usable_size cfg st4 (fst ans + PREFIX_SIZE cfg) = ?new"
  proof (cases "HAVE_MALLOC_SIZE cfg")
    case True
    then show ?thesis
      by (simp add: zmalloc_usable_size_def zmalloc_size_def PREFIX_SIZE_def g7)
  next
    case False
    then show ?thesis
      by (simp add: zmalloc_usable_size_def zmalloc_size_def g6)
  qed
  have tot: "accounted_total cfg st4 = accounted_total cfg st - ?old + ?new"
    by (simp only: st4(3) st3(3) tot2)
  have tr: "trace st4 = trace st @ [Ev_realloc ?rp (sz + PREFIX_SIZE cfg),
              Ev_stat_free ?old, Ev_stat_alloc ?new]"
    by (simp only: st4(4) st3(4) tr2 append_assoc append_Cons append_Nil)
  from r st4(2) tot tr us g1 g2 g3 g4 g5 g6 g7 show ?thesis by blast
qed

section \<open>Overflow guard of the non-panicking allocation\<close>

text \<open>
  C1. For every sz at or above \<^verbatim>\<open>SIZE_MAX / 2\<close>, \<^verbatim>\<open>ztrymalloc\<close> and
  \<^verbatim>\<open>ztrymalloc_usable\<close> return the null pointer and leave the whole state as it was:
  the history of effects gains no call of the underlying allocator and no call of the
  out-of-memory handler.
\<close>

theorem ztrymalloc_overflow_guard:
  "SIZE_MAX div 2 \<le> s \<Longrightarrow>
     ztrymalloc cfg s ans st = Inr (0, st) \<and>
     ztrymalloc_usable cfg s ans st = Inr ((0, 0), st)"
  by (simp add: ztrymalloc_def ztrymalloc_usable_def ztrymalloc_usable_internal_def
      written_def extend_to_usable_def)

theorem ztrymalloc_overflow_guard_witness:
  "SIZE_MAX div 2 \<le> (9223372036854775807 :: size_t) \<and>
   ztrymalloc header_build 9223372036854775807 (4096, 64) start_state = Inr (0, start_state) \<and>
   ztrymalloc_usable native_build 9223372036854775807 (4096, 64) start_state =
     Inr ((0, 0), start_state)"
proof -
  have h: "SIZE_MAX div 2 \<le> (9223372036854775807 :: size_t)"
    by (simp add: SIZE_MAX_def)
  show ?thesis
    using h ztrymalloc_overflow_guard [OF h] by simp
qed

section \<open>Allocation followed by release\<close>

text \<open>
  C2. For every size \<open>s\<close> below the overflow threshold, when the underlying allocator
  succeeds, \<^verbatim>\<open>ztrymalloc(s)\<close> returns a non-null pointer whose \<^verbatim>\<open>zmalloc_usable_size\<close> is
  at least \<open>s\<close>, and a following \<^verbatim>\<open>zfree\<close> of that pointer brings
  \<^verbatim>\<open>zmalloc_used_memory\<close> back to exactly its value before the allocation. The state is
  one of a single calling thread that satisfies the accounting invariant.
\<close>

theorem ztrymalloc_zfree_restores:
  assumes s: "s < SIZE_MAX div 2"
      and ok: "allocator_succeeds (MALLOC_MIN_SIZE s + PREFIX_SIZE cfg) ans"
      and inv: "acct_inv cfg st"
  shows "\<exists>q st1 st2.
           ztrymalloc cfg s ans st = Inr (q, st1) \<and> q \<noteq> 0 \<and>
           s \<le> zmalloc_usable_size cfg st1 q \<and>
           zfree cfg q st1 = Inr st2 \<and>
           zmalloc_used_memory cfg st = Inr (accounted_total cfg st) \<and>
           zmalloc_used_memory cfg st2 = Inr (accounted_total cfg st)"
proof -
  let ?p = "fst ans"
  let ?q = "?p + PREFIX_SIZE cfg"
  from ok have p: "?p \<noteq> 0"
    and fit: "unat ?p + unat (MALLOC_MIN_SIZE s + PREFIX_SIZE cfg) \<le> 18446744073709551616"
    and big: "MALLOC_MIN_SIZE s + PREFIX_SIZE cfg \<le> snd ans"
    by (simp_all add: allocator_succeeds_def)
  from ztrymalloc_internal_success [OF s p inv] obtain st1 where
    r1: "ztrymalloc_usable_internal cfg s ans st =
           Inr ((?q, Some (if HAVE_MALLOC_SIZE cfg then snd ans else MALLOC_MIN_SIZE s)), st1)"
    and inv1: "acct_inv cfg st1"
    and tot1: "accounted_total cfg st1 = accounted_total cfg st +
             (if HAVE_MALLOC_SIZE cfg then snd ans else MALLOC_MIN_SIZE s + PREFIX_SIZE cfg)"
    and hw1: "heap_word st1 = (if HAVE_MALLOC_SIZE cfg then heap_word st
                            else (heap_word st)(?p := MALLOC_MIN_SIZE s))"
    and as1: "allocator_size st1 = (allocator_size st)(?p := snd ans)"
    by blast
  have q: "?q \<noteq> 0"
  proof (cases "HAVE_MALLOC_SIZE cfg")
    case True
    with p show ?thesis by (simp add: PREFIX_SIZE_def)
  next
    case False
    have "?p + 8 \<noteq> 0"
      using MALLOC_MIN_SIZE_small [OF s] MALLOC_MIN_SIZE_pos fit False
      by (intro prefix_nonnull [of "MALLOC_MIN_SIZE s"]) (simp_all add: PREFIX_SIZE_def)
    with False show ?thesis by (simp add: PREFIX_SIZE_def)
  qed
  have rq: "?q - PREFIX_SIZE cfg \<noteq> 0" using p by simp
  have zs: "zmalloc_size cfg st1 ?q =
            (if HAVE_MALLOC_SIZE cfg then snd ans else MALLOC_MIN_SIZE s + PREFIX_SIZE cfg)"
    by (simp add: zmalloc_size_def hw1 as1 PREFIX_SIZE_def)
  have us: "s \<le> zmalloc_usable_size cfg st1 ?q"
  proof (cases "HAVE_MALLOC_SIZE cfg")
    case True
    have "s \<le> MALLOC_MIN_SIZE s" by (rule MALLOC_MIN_SIZE_ge)
    also have "\<dots> \<le> snd ans" using big True by (simp add: PREFIX_SIZE_def)
    finally show ?thesis using True by (simp add: zmalloc_usable_size_def zs)
  next
    case False
    then show ?thesis by (simp add: zmalloc_usable_size_def zs MALLOC_MIN_SIZE_ge)
  qed
  from zfree_success [OF q rq inv1] obtain st2 where
    r2: "zfree cfg ?q st1 = Inr st2" and inv2: "acct_inv cfg st2"
    and tot2: "accounted_total cfg st2 = accounted_total cfg st1 - zmalloc_size cfg st1 ?q"
    by blast
  have "accounted_total cfg st2 = accounted_total cfg st"
    by (simp add: tot2 tot1 zs)
  then have um: "zmalloc_used_memory cfg st2 = Inr (accounted_total cfg st)"
    by (simp add: used_memory_inv [OF inv2])
  have "ztrymalloc cfg s ans st = Inr (?q, st1)"
    by (simp add: ztrymalloc_def r1)
  with q us r2 um used_memory_inv [OF inv] show ?thesis by blast
qed


theorem ztrymalloc_zfree_restores_witness:
  "(100 :: size_t) < SIZE_MAX div 2 \<and>
   allocator_succeeds (MALLOC_MIN_SIZE 100 + PREFIX_SIZE header_build) (4096, 128) \<and>
   acct_inv header_build start_state \<and>
   (\<exists>q st1 st2.
      ztrymalloc header_build 100 (4096, 128) start_state = Inr (q, st1) \<and> q \<noteq> 0 \<and>
      100 \<le> zmalloc_usable_size header_build st1 q \<and>
      zfree header_build q st1 = Inr st2 \<and>
      zmalloc_used_memory header_build start_state = Inr 0 \<and>
      zmalloc_used_memory header_build st2 = Inr 0)"
proof -
  have h1: "(100 :: size_t) < SIZE_MAX div 2"
    by (simp add: SIZE_MAX_def)
  have h2: "allocator_succeeds (MALLOC_MIN_SIZE 100 + PREFIX_SIZE header_build) (4096, 128)"
    by (simp add: allocator_succeeds_def MALLOC_MIN_SIZE_def PREFIX_SIZE_def header_build_def)
  have h3: "acct_inv header_build start_state"
    by (simp add: acct_inv_def header_build_def start_state_def MAX_THREADS_NUM_def)
  have t: "accounted_total header_build start_state = 0"
    by (simp add: accounted_total_def header_build_def start_state_def MAX_THREADS_NUM_def)
  show ?thesis
    using h1 h2 h3 ztrymalloc_zfree_restores [OF h1 h2 h3] by (simp add: t)
qed

section \<open>The aggregate query\<close>

text \<open>
  C6. In every state whose table has its declared extent \<^verbatim>\<open>MAX_THREADS_NUM\<close>,
  \<^verbatim>\<open>zmalloc_used_memory\<close> returns the sum of exactly the first
  min(\<^verbatim>\<open>total_active_threads\<close>, \<^verbatim>\<open>MAX_THREADS_NUM\<close>) slots (none when the count is not
  positive), plus the overflow counter exactly when the thread count exceeds
  \<^verbatim>\<open>MAX_THREADS_NUM\<close>; it never stops on a read outside the table.
\<close>

theorem zmalloc_used_memory_sums_slots:
  "int (length (used_memory_thread st)) = MAX_THREADS_NUM cfg \<Longrightarrow>
   zmalloc_used_memory cfg st =
     Inr (sum_list (take (nat (min (total_active_threads st) (MAX_THREADS_NUM cfg)))
                      (used_memory_thread st)) +
          (if total_active_threads st > MAX_THREADS_NUM cfg
           then used_memory_for_additional_threads st else 0)) \<and>
   zmalloc_used_memory cfg st \<noteq> Inl Out_of_bounds"
  by (simp add: zmalloc_used_memory_closed accounted_total_def)

theorem zmalloc_used_memory_sums_slots_witness:
  "int (length (used_memory_thread crowded_state)) = MAX_THREADS_NUM header_build \<and>
   zmalloc_used_memory header_build crowded_state = Inr 115 \<and>
   int (length (used_memory_thread one_block_state)) = MAX_THREADS_NUM header_build \<and>
   zmalloc_used_memory header_build one_block_state = Inr 24"
proof -
  have h1: "int (length (used_memory_thread crowded_state)) = MAX_THREADS_NUM header_build"
    by (simp add: crowded_state_def header_build_def MAX_THREADS_NUM_def)
  have h2: "int (length (used_memory_thread one_block_state)) = MAX_THREADS_NUM header_build"
    by (simp add: one_block_state_def header_build_def MAX_THREADS_NUM_def)
  have m: "MAX_THREADS_NUM header_build = 5"
    by (simp add: header_build_def MAX_THREADS_NUM_def)
  have a: "zmalloc_used_memory header_build crowded_state = Inr 115"
    using zmalloc_used_memory_sums_slots [OF h1] by (simp add: m crowded_state_def)
  have b: "zmalloc_used_memory header_build one_block_state = Inr 24"
    using zmalloc_used_memory_sums_slots [OF h2] by (simp add: m one_block_state_def)
  from h1 h2 a b show ?thesis by simp
qed

section \<open>Failure of the panicking allocation\<close>

text \<open>
  C7. For every size on which the allocation fails, that is when the underlying
  allocator returns null or the size is at or above the overflow guard, \<^verbatim>\<open>zmalloc\<close>
  calls the handler registered by \<^verbatim>\<open>zmalloc_set_oom_handler\<close>, exactly once and with the
  requested size as its argument; when the handler gives control back, \<^verbatim>\<open>zmalloc\<close>
  returns the null pointer.
\<close>

theorem zmalloc_failure_calls_handler:
  "fst ans = 0 \<or> SIZE_MAX div 2 \<le> s \<Longrightarrow>
   zmalloc cfg s ans (zmalloc_set_oom_handler h st) =
     (let st1 = st\<lparr>zmalloc_oom_handler := h,
                    trace := trace st @
                      (if SIZE_MAX div 2 \<le> s then []
                       else [Ev_malloc (MALLOC_MIN_SIZE s + PREFIX_SIZE cfg)]) @
                      [Ev_oom h s]\<rparr>
      in case h of
           zmalloc_default_oom \<Rightarrow> Inl (Abort_called, st1)
         | Handler n returns \<Rightarrow>
             if returns then Inr (0, st1) else Inl (Handler_no_return, st1))"
  by (auto simp: zmalloc_def ztrymalloc_usable_internal_def malloc_def note_block_def
      call_oom_handler_def zmalloc_set_oom_handler_def Let_def split: oom_handler.splits)

theorem zmalloc_failure_calls_handler_witness:
  "(fst (0 :: ptr, 0 :: size_t) = 0 \<or> SIZE_MAX div 2 \<le> (100 :: size_t)) \<and>
   zmalloc header_build 100 (0, 0) (zmalloc_set_oom_handler (Handler 7 True) start_state) =
     Inr (0, start_state\<lparr>zmalloc_oom_handler := Handler 7 True,
                         trace := [Ev_malloc 108, Ev_oom (Handler 7 True) 100]\<rparr>) \<and>
   (fst (4096 :: ptr, 64 :: size_t) = 0 \<or> SIZE_MAX div 2 \<le> (9223372036854775807 :: size_t)) \<and>
   zmalloc header_build 9223372036854775807 (4096, 64)
       (zmalloc_set_oom_handler (Handler 7 True) start_state) =
     Inr (0, start_state\<lparr>zmalloc_oom_handler := Handler 7 True,
                         trace := [Ev_oom (Handler 7 True) 9223372036854775807]\<rparr>)"
proof -
  have h1: "fst (0 :: ptr, 0 :: size_t) = 0 \<or> SIZE_MAX div 2 \<le> (100 :: size_t)" by simp
  have h2: "fst (4096 :: ptr, 64 :: size_t) = 0 \<or> SIZE_MAX div 2 \<le> (9223372036854775807 :: size_t)"
    by (simp add: SIZE_MAX_def)
  show ?thesis
    using h1 h2 zmalloc_failure_calls_handler [OF h1, of header_build "Handler 7 True" start_state]
      zmalloc_failure_calls_handler [OF h2, of header_build "Handler 7 True" start_state]
    by (simp add: start_state_def SIZE_MAX_def MALLOC_MIN_SIZE_def PREFIX_SIZE_def header_build_def)
qed


section \<open>Release\<close>

lemma one_block_inv: "acct_inv header_build one_block_state"
  by (simp add: acct_inv_def header_build_def one_block_state_def MAX_THREADS_NUM_def)

lemma start_inv: "acct_inv header_build start_state"
  by (simp add: acct_inv_def header_build_def start_state_def MAX_THREADS_NUM_def)

lemma one_block_total: "zmalloc_used_memory header_build one_block_state = Inr 24"
  by (simp add: zmalloc_used_memory_closed accounted_total_def one_block_state_def
      header_build_def MAX_THREADS_NUM_def)

lemma zfree_one_block:
  "zfree header_build 4104 one_block_state =
     Inr (one_block_state\<lparr>used_memory_thread := [0, 0, 0, 0, 0],
                          trace := [Ev_stat_free 24, Ev_free 4096]\<rparr>)"
  by (simp add: zfree_def zfree_internal_def update_zmalloc_stat_free_def free_def
      header_build_def one_block_state_def PREFIX_SIZE_def MAX_THREADS_NUM_def Let_def)


text \<open>
  C8. For every non-null pointer, \<^verbatim>\<open>zfree_with_size\<close> called with the pointer's usable
  size does what \<^verbatim>\<open>zfree\<close> does: the same accounting decrement and the same release of
  the same underlying block, without looking the size up.
\<close>

theorem zfree_with_size_is_zfree:
  "p \<noteq> 0 \<Longrightarrow> s = zmalloc_usable_size cfg st p \<Longrightarrow>
   zfree_with_size cfg p s st = zfree cfg p st"
  by (simp add: zfree_with_size_def zfree_def zmalloc_usable_size_def zmalloc_size_def Let_def)

theorem zfree_with_size_is_zfree_witness:
  "(4104 :: ptr) \<noteq> 0 \<and> 16 = zmalloc_usable_size header_build one_block_state 4104 \<and>
   zfree_with_size header_build 4104 16 one_block_state =
     Inr (one_block_state\<lparr>used_memory_thread := [0, 0, 0, 0, 0],
                          trace := [Ev_stat_free 24, Ev_free 4096]\<rparr>) \<and>
   24 = zmalloc_usable_size native_build one_block_state 4104 \<and>
   zfree_with_size native_build 4104 24 one_block_state =
     Inr (one_block_state\<lparr>used_memory_thread := [0, 0, 0, 0, 0],
                          trace := [Ev_stat_free 24, Ev_sdallocx 4104 24]\<rparr>)"
proof -
  have h1: "(4104 :: ptr) \<noteq> 0" by simp
  have h2: "16 = zmalloc_usable_size header_build one_block_state 4104"
    by (simp add: zmalloc_usable_size_def zmalloc_size_def header_build_def one_block_state_def
        PREFIX_SIZE_def)
  have h3: "24 = zmalloc_usable_size native_build one_block_state 4104"
    by (simp add: zmalloc_usable_size_def zmalloc_size_def native_build_def one_block_state_def)
  have n: "zfree native_build 4104 one_block_state =
     Inr (one_block_state\<lparr>used_memory_thread := [0, 0, 0, 0, 0],
                          trace := [Ev_stat_free 24, Ev_sdallocx 4104 24]\<rparr>)"
    by (simp add: zfree_def zfree_internal_def update_zmalloc_stat_free_def je_sdallocx_def
        zmalloc_size_def native_build_def one_block_state_def MAX_THREADS_NUM_def Let_def)
  show ?thesis
    using h1 h2 h3 zfree_with_size_is_zfree [OF h1 h2] zfree_with_size_is_zfree [OF h1 h3]
    by (simp add: zfree_one_block n)
qed

section \<open>Reallocation to size zero\<close>

text \<open>
  C5. For every non-null pointer, \<^verbatim>\<open>ztryrealloc(ptr, 0)\<close> is \<^verbatim>\<open>zfree(ptr)\<close> followed
  by returning null: it ends in the state \<^verbatim>\<open>zfree\<close> ends in (the same release, the same
  change of the accounting), returns the null pointer, and \<^verbatim>\<open>ztryrealloc_usable\<close> reports
  the usable size 0.
\<close>

theorem ztryrealloc_zero_is_zfree:
  "p \<noteq> 0 \<Longrightarrow>
   ztryrealloc cfg p 0 ans st =
     (case zfree cfg p st of Inl e \<Rightarrow> Inl e | Inr st' \<Rightarrow> Inr (0, st')) \<and>
   ztryrealloc_usable cfg p 0 ans st =
     (case zfree cfg p st of Inl e \<Rightarrow> Inl e | Inr st' \<Rightarrow> Inr ((0, 0), st'))"
  by (simp add: ztryrealloc_def ztryrealloc_usable_def ztryrealloc_usable_internal_def
      written_def extend_to_usable_def split: sum.splits)

theorem ztryrealloc_zero_is_zfree_witness:
  "(4104 :: ptr) \<noteq> 0 \<and>
   ztryrealloc header_build 4104 0 (0, 0) one_block_state =
     Inr (0, one_block_state\<lparr>used_memory_thread := [0, 0, 0, 0, 0],
                              trace := [Ev_stat_free 24, Ev_free 4096]\<rparr>) \<and>
   ztryrealloc_usable header_build 4104 0 (0, 0) one_block_state =
     Inr ((0, 0), one_block_state\<lparr>used_memory_thread := [0, 0, 0, 0, 0],
                                   trace := [Ev_stat_free 24, Ev_free 4096]\<rparr>)"
proof -
  have h: "(4104 :: ptr) \<noteq> 0" by simp
  show ?thesis
    using ztryrealloc_zero_is_zfree [OF h, of header_build "(0, 0)" one_block_state]
    by (simp add: zfree_one_block)
qed


section \<open>Overflow of the element count in zero-filled allocation\<close>

text \<open>
  C10. For every \<open>num\<close> and \<open>size\<close> with \<open>size = 0\<close> or \<open>num > SIZE_MAX / size\<close>,
  \<^verbatim>\<open>zcalloc_num\<close> calls the out-of-memory handler with \<^verbatim>\<open>SIZE_MAX\<close> as its argument,
  not the product, makes no call of the underlying allocator, and returns null when the
  handler gives control back. A zero element size is so treated as a failure.
\<close>

theorem zcalloc_num_overflow_calls_handler:
  "sz = 0 \<or> num > SIZE_MAX div sz \<Longrightarrow>
   zcalloc_num cfg num sz ans st =
     (let st1 = st\<lparr>trace := trace st @ [Ev_oom (zmalloc_oom_handler st) SIZE_MAX]\<rparr>
      in case zmalloc_oom_handler st of
           zmalloc_default_oom \<Rightarrow> Inl (Abort_called, st1)
         | Handler n returns \<Rightarrow>
             if returns then Inr (0, st1) else Inl (Handler_no_return, st1))"
  by (auto simp: zcalloc_num_def call_oom_handler_def Let_def split: oom_handler.splits)

theorem zcalloc_num_overflow_calls_handler_witness:
  "((0 :: size_t) = 0 \<or> (5 :: size_t) > SIZE_MAX div 0) \<and>
   ((8 :: size_t) = 0 \<or> (4611686018427387904 :: size_t) > SIZE_MAX div 8) \<and>
   zcalloc_num header_build 5 0 (4096, 64) (zmalloc_set_oom_handler (Handler 7 True) start_state) =
     Inr (0, start_state\<lparr>zmalloc_oom_handler := Handler 7 True,
                         trace := [Ev_oom (Handler 7 True) 18446744073709551615]\<rparr>) \<and>
   zcalloc_num header_build 4611686018427387904 8 (4096, 64) start_state =
     Inl (Abort_called, start_state\<lparr>trace := [Ev_oom zmalloc_default_oom 18446744073709551615]\<rparr>)"
proof -
  have h: "(0 :: size_t) = 0 \<or> (5 :: size_t) > SIZE_MAX div 0" by simp
  have h2: "(8 :: size_t) = 0 \<or> (4611686018427387904 :: size_t) > SIZE_MAX div 8"
    by (simp add: SIZE_MAX_def)
  show ?thesis
    using h2 zcalloc_num_overflow_calls_handler [OF h2, of header_build "(4096, 64)" start_state]
      zcalloc_num_overflow_calls_handler [OF h, of header_build "(4096, 64)"
        "zmalloc_set_oom_handler (Handler 7 True) start_state"]
    by (simp add: zmalloc_set_oom_handler_def start_state_def SIZE_MAX_def)
qed


section \<open>Accounting of a reallocation\<close>

lemma third_thread_inv: "acct_inv header_build third_thread_state"
  by (simp add: acct_inv_def header_build_def third_thread_state_def MAX_THREADS_NUM_def)

lemma crowded_inv: "acct_inv native_build crowded_state"
  by (simp add: acct_inv_def native_build_def crowded_state_def MAX_THREADS_NUM_def)

text \<open>
  C3, as the code has it. For every non-null pointer of the layer and every size with
  \<open>0 < size < SIZE_MAX / 2\<close>, when the underlying \<^verbatim>\<open>realloc\<close> succeeds, the old
  usable size is the one the active size header strategy gives in the state before the
  \<^verbatim>\<open>realloc\<close> call, which releases the old block when it moves it. After that call two
  separate accounting updates follow, first the removal of the old usable size, then the
  addition of the new usable size. Both go to the counter of the calling thread and to
  no other: its slot of the table when its index is below \<^verbatim>\<open>MAX_THREADS_NUM\<close>, the
  overflow counter otherwise; a thread not yet registered is given the next index
  first. The aggregate usage changes by the new usable size minus the old one.
\<close>

theorem ztryrealloc_accounting:
  assumes p: "p \<noteq> 0" and rp: "p - PREFIX_SIZE cfg \<noteq> 0"
      and sz0: "sz \<noteq> 0" and sz1: "sz < SIZE_MAX div 2"
      and ok: "fst ans \<noteq> 0" and inv: "acct_inv cfg st"
  shows "\<exists>st'. ztryrealloc_usable cfg p sz ans st =
             Inr ((fst ans + PREFIX_SIZE cfg, if HAVE_MALLOC_SIZE cfg then snd ans else sz), st') \<and>
           ztryrealloc cfg p sz ans st = Inr (fst ans + PREFIX_SIZE cfg, st') \<and>
           zmalloc_usable_size cfg st' (fst ans + PREFIX_SIZE cfg) =
             (if HAVE_MALLOC_SIZE cfg then snd ans else sz) \<and>
           trace st' = trace st @
             [Ev_realloc (p - PREFIX_SIZE cfg) (sz + PREFIX_SIZE cfg),
              Ev_stat_free (zmalloc_usable_size cfg st p),
              Ev_stat_alloc (if HAVE_MALLOC_SIZE cfg then snd ans else sz)] \<and>
           thread_index st' = caller_index st \<and>
           total_active_threads st' =
             (if thread_index st = - 1 then total_active_threads st + 1
              else total_active_threads st) \<and>
           used_memory_thread st' =
             (if MAX_THREADS_NUM cfg \<le> caller_index st then used_memory_thread st
              else (used_memory_thread st)
                     [nat (caller_index st) :=
                        used_memory_thread st ! nat (caller_index st)
                          - zmalloc_usable_size cfg st p
                          + (if HAVE_MALLOC_SIZE cfg then snd ans else sz)]) \<and>
           used_memory_for_additional_threads st' =
             (if MAX_THREADS_NUM cfg \<le> caller_index st
              then used_memory_for_additional_threads st
                     - zmalloc_usable_size cfg st p
                     + (if HAVE_MALLOC_SIZE cfg then snd ans else sz)
              else used_memory_for_additional_threads st) \<and>
           zmalloc_oom_handler st' = zmalloc_oom_handler st \<and>
           heap_word st' =
             (heap_word st)
               (p - PREFIX_SIZE cfg := freed_word,
                fst ans := (if HAVE_MALLOC_SIZE cfg then heap_word st (p - PREFIX_SIZE cfg)
                            else sz)) \<and>
           allocator_size st' =
             (allocator_size st)(p - PREFIX_SIZE cfg := freed_word, fst ans := snd ans) \<and>
           0 \<le> caller_index st \<and>
           (if MAX_THREADS_NUM cfg \<le> caller_index st then True
            else nat (caller_index st) < length (used_memory_thread st)) \<and>
           zmalloc_used_memory cfg st = Inr (accounted_total cfg st) \<and>
           zmalloc_used_memory cfg st' =
             Inr (accounted_total cfg st - zmalloc_usable_size cfg st p +
                  (if HAVE_MALLOC_SIZE cfg then snd ans else sz))"
proof -
  let ?new = "if HAVE_MALLOC_SIZE cfg then snd ans else sz"
  from ztryrealloc_internal_success [OF p sz0 sz1 ok inv] obtain st' where
    r: "ztryrealloc_usable_internal cfg p sz ans st =
             Inr ((fst ans + PREFIX_SIZE cfg, Some ?new), st')"
    and inv': "acct_inv cfg st'"
    and tot: "accounted_total cfg st' = accounted_total cfg st - zmalloc_usable_size cfg st p + ?new"
    and rest: "trace st' = trace st @
             [Ev_realloc (p - PREFIX_SIZE cfg) (sz + PREFIX_SIZE cfg),
              Ev_stat_free (zmalloc_usable_size cfg st p),
              Ev_stat_alloc ?new]"
      "zmalloc_usable_size cfg st' (fst ans + PREFIX_SIZE cfg) = ?new"
      "thread_index st' = caller_index st"
      "total_active_threads st' =
             (if thread_index st = - 1 then total_active_threads st + 1
              else total_active_threads st)"
      "used_memory_thread st' =
             (if MAX_THREADS_NUM cfg \<le> caller_index st then used_memory_thread st
              else (used_memory_thread st)
                     [nat (caller_index st) :=
                        used_memory_thread st ! nat (caller_index st)
                          - zmalloc_usable_size cfg st p + ?new])"
      "used_memory_for_additional_threads st' =
             (if MAX_THREADS_NUM cfg \<le> caller_index st
              then used_memory_for_additional_threads st
                     - zmalloc_usable_size cfg st p + ?new
              else used_memory_for_additional_threads st)"
      "zmalloc_oom_handler st' = zmalloc_oom_handler st"
      "heap_word st' =
             (heap_word st)
               (p - PREFIX_SIZE cfg := freed_word,
                fst ans := (if HAVE_MALLOC_SIZE cfg then heap_word st (p - PREFIX_SIZE cfg)
                            else sz))"
      "allocator_size st' =
             (allocator_size st)(p - PREFIX_SIZE cfg := freed_word, fst ans := snd ans)"
    by blast
  have a: "ztryrealloc_usable cfg p sz ans st =
             Inr ((fst ans + PREFIX_SIZE cfg, ?new), st')"
    by (simp add: ztryrealloc_usable_def r written_def extend_to_usable_def)
  have b: "ztryrealloc cfg p sz ans st = Inr (fst ans + PREFIX_SIZE cfg, st')"
    by (simp add: ztryrealloc_def r)
  have c: "zmalloc_used_memory cfg st' =
             Inr (accounted_total cfg st - zmalloc_usable_size cfg st p + ?new)"
    by (simp only: used_memory_inv [OF inv'] tot)
  have d: "0 \<le> caller_index st"
    "if MAX_THREADS_NUM cfg \<le> caller_index st then True
     else nat (caller_index st) < length (used_memory_thread st)"
    using caller_index_bounds [OF inv] by auto
  from a b rest d used_memory_inv [OF inv] c show ?thesis by blast
qed

theorem ztryrealloc_accounting_witness:
  "(4104 :: ptr) \<noteq> 0 \<and> 4104 - PREFIX_SIZE header_build \<noteq> 0 \<and>
   (32 :: size_t) \<noteq> 0 \<and> (32 :: size_t) < SIZE_MAX div 2 \<and>
   fst (8192 :: ptr, 0 :: size_t) \<noteq> 0 \<and> acct_inv header_build third_thread_state \<and>
   (\<exists>st'. ztryrealloc header_build 4104 32 (8192, 0) third_thread_state = Inr (8200, st') \<and>
          trace st' = [Ev_realloc 4096 40, Ev_stat_free 16, Ev_stat_alloc 32] \<and>
          thread_index st' = 2 \<and>
          used_memory_thread st' = [100, 0, 40, 0, 0] \<and>
          used_memory_for_additional_threads st' = 0 \<and>
          heap_word st' 4096 = freed_word \<and> heap_word st' 8192 = 32 \<and>
          zmalloc_used_memory header_build third_thread_state = Inr 124 \<and>
          zmalloc_used_memory header_build st' = Inr 140) \<and>
   4104 - PREFIX_SIZE native_build \<noteq> 0 \<and> fst (4104 :: ptr, 48 :: size_t) \<noteq> 0 \<and>
   acct_inv native_build crowded_state \<and>
   (\<exists>st'. ztryrealloc native_build 4104 32 (4104, 48) crowded_state = Inr (4104, st') \<and>
          trace st' = [Ev_realloc 4104 32, Ev_stat_free 0, Ev_stat_alloc 48] \<and>
          thread_index st' = 6 \<and>
          used_memory_thread st' = [1, 2, 3, 4, 5] \<and>
          used_memory_for_additional_threads st' = 148)"
proof -
  have h1: "(4104 :: ptr) \<noteq> 0" by simp
  have c: "PREFIX_SIZE header_build = 8" "\<not> HAVE_MALLOC_SIZE header_build"
    "trace third_thread_state = []" "MAX_THREADS_NUM header_build = 5"
    "caller_index third_thread_state = 2"
    "used_memory_thread third_thread_state = [100, 0, 24, 0, 0]"
    "used_memory_for_additional_threads third_thread_state = 0"
    by (simp_all add: PREFIX_SIZE_def header_build_def third_thread_state_def
        MAX_THREADS_NUM_def caller_index_def)
  have n: "PREFIX_SIZE native_build = 0" "HAVE_MALLOC_SIZE native_build"
    "trace crowded_state = []" "MAX_THREADS_NUM native_build = 5"
    "caller_index crowded_state = 6"
    "used_memory_thread crowded_state = [1, 2, 3, 4, 5]"
    "used_memory_for_additional_threads crowded_state = 100"
    by (simp_all add: PREFIX_SIZE_def native_build_def crowded_state_def
        MAX_THREADS_NUM_def caller_index_def)
  have h1': "4104 - PREFIX_SIZE header_build \<noteq> 0" by (simp add: c)
  have h1n: "4104 - PREFIX_SIZE native_build \<noteq> 0" by (simp add: n)
  have h2: "(32 :: size_t) \<noteq> 0" by simp
  have h3: "(32 :: size_t) < SIZE_MAX div 2" by (simp add: SIZE_MAX_def)
  have h4: "fst (8192 :: ptr, 0 :: size_t) \<noteq> 0" by simp
  have h4n: "fst (4104 :: ptr, 48 :: size_t) \<noteq> 0" by simp
  have u: "zmalloc_usable_size header_build third_thread_state 4104 = 16"
    by (simp add: zmalloc_usable_size_def zmalloc_size_def header_build_def
        third_thread_state_def PREFIX_SIZE_def)
  have un: "zmalloc_usable_size native_build crowded_state 4104 = 0"
    by (simp add: zmalloc_usable_size_def zmalloc_size_def native_build_def crowded_state_def)
  have lu: "([100, 0, 24, 0, 0] :: size_t list) ! nat 2 = 24"
    "([100, 0, 24, 0, 0] :: size_t list)[nat 2 := 40] = [100, 0, 40, 0, 0]"
    by (simp_all add: numeral_2_eq_2)
  have t: "accounted_total header_build third_thread_state = 124"
    by (simp add: accounted_total_def header_build_def third_thread_state_def
        MAX_THREADS_NUM_def)
  from ztryrealloc_accounting [OF h1 h1' h2 h3 h4 third_thread_inv] obtain st' where
    "ztryrealloc header_build 4104 32 (8192, 0) third_thread_state =
       Inr (fst (8192 :: ptr, 0 :: size_t) + PREFIX_SIZE header_build, st')"
    "trace st' = trace third_thread_state @
             [Ev_realloc (4104 - PREFIX_SIZE header_build) (32 + PREFIX_SIZE header_build),
              Ev_stat_free (zmalloc_usable_size header_build third_thread_state 4104),
              Ev_stat_alloc (if HAVE_MALLOC_SIZE header_build then snd (8192 :: ptr, 0 :: size_t) else 32)]"
    "thread_index st' = caller_index third_thread_state"
    "used_memory_thread st' =
       (if MAX_THREADS_NUM header_build \<le> caller_index third_thread_state
        then used_memory_thread third_thread_state
        else (used_memory_thread third_thread_state)
               [nat (caller_index third_thread_state) :=
                  used_memory_thread third_thread_state ! nat (caller_index third_thread_state)
                    - zmalloc_usable_size header_build third_thread_state 4104
                    + (if HAVE_MALLOC_SIZE header_build then snd (8192 :: ptr, 0 :: size_t) else 32)])"
    "used_memory_for_additional_threads st' =
       (if MAX_THREADS_NUM header_build \<le> caller_index third_thread_state
        then used_memory_for_additional_threads third_thread_state
               - zmalloc_usable_size header_build third_thread_state 4104
               + (if HAVE_MALLOC_SIZE header_build then snd (8192 :: ptr, 0 :: size_t) else 32)
        else used_memory_for_additional_threads third_thread_state)"
    "heap_word st' =
       (heap_word third_thread_state)
         (4104 - PREFIX_SIZE header_build := freed_word,
          fst (8192 :: ptr, 0 :: size_t) :=
            (if HAVE_MALLOC_SIZE header_build
             then heap_word third_thread_state (4104 - PREFIX_SIZE header_build) else 32))"
    "zmalloc_used_memory header_build third_thread_state =
       Inr (accounted_total header_build third_thread_state)"
    "zmalloc_used_memory header_build st' =
             Inr (accounted_total header_build third_thread_state -
                  zmalloc_usable_size header_build third_thread_state 4104 +
                  (if HAVE_MALLOC_SIZE header_build then snd (8192 :: ptr, 0 :: size_t) else 32))"
    by blast
  then have A: "ztryrealloc header_build 4104 32 (8192, 0) third_thread_state = Inr (8200, st') \<and>
          trace st' = [Ev_realloc 4096 40, Ev_stat_free 16, Ev_stat_alloc 32] \<and>
          thread_index st' = 2 \<and>
          used_memory_thread st' = [100, 0, 40, 0, 0] \<and>
          used_memory_for_additional_threads st' = 0 \<and>
          heap_word st' 4096 = freed_word \<and> heap_word st' 8192 = 32 \<and>
          zmalloc_used_memory header_build third_thread_state = Inr 124 \<and>
          zmalloc_used_memory header_build st' = Inr 140"
    by (simp add: u t c lu)
  from ztryrealloc_accounting [OF h1 h1n h2 h3 h4n crowded_inv] obtain st'' where
    "ztryrealloc native_build 4104 32 (4104, 48) crowded_state =
       Inr (fst (4104 :: ptr, 48 :: size_t) + PREFIX_SIZE native_build, st'')"
    "trace st'' = trace crowded_state @
             [Ev_realloc (4104 - PREFIX_SIZE native_build) (32 + PREFIX_SIZE native_build),
              Ev_stat_free (zmalloc_usable_size native_build crowded_state 4104),
              Ev_stat_alloc (if HAVE_MALLOC_SIZE native_build then snd (4104 :: ptr, 48 :: size_t) else 32)]"
    "thread_index st'' = caller_index crowded_state"
    "used_memory_thread st'' =
       (if MAX_THREADS_NUM native_build \<le> caller_index crowded_state
        then used_memory_thread crowded_state
        else (used_memory_thread crowded_state)
               [nat (caller_index crowded_state) :=
                  used_memory_thread crowded_state ! nat (caller_index crowded_state)
                    - zmalloc_usable_size native_build crowded_state 4104
                    + (if HAVE_MALLOC_SIZE native_build then snd (4104 :: ptr, 48 :: size_t) else 32)])"
    "used_memory_for_additional_threads st'' =
       (if MAX_THREADS_NUM native_build \<le> caller_index crowded_state
        then used_memory_for_additional_threads crowded_state
               - zmalloc_usable_size native_build crowded_state 4104
               + (if HAVE_MALLOC_SIZE native_build then snd (4104 :: ptr, 48 :: size_t) else 32)
        else used_memory_for_additional_threads crowded_state)"
    by blast
  then have B: "ztryrealloc native_build 4104 32 (4104, 48) crowded_state = Inr (4104, st'') \<and>
          trace st'' = [Ev_realloc 4104 32, Ev_stat_free 0, Ev_stat_alloc 48] \<and>
          thread_index st'' = 6 \<and>
          used_memory_thread st'' = [1, 2, 3, 4, 5] \<and>
          used_memory_for_additional_threads st'' = 148"
    by (simp add: un n)
  from A B h1 h1' h1n h2 h3 h4 h4n third_thread_inv crowded_inv show ?thesis by blast
qed

text \<open>
  C3 as stated has the two accounting updates bracket the reallocation. On a
  header-based build, reallocating the block of \<open>one_block_state\<close> to 32 bytes performs
  the \<^verbatim>\<open>realloc\<close> call first and both updates after it: no accounting update precedes
  the call.
\<close>

theorem ztryrealloc_updates_after_realloc_counterexample:
  "ztryrealloc_usable header_build 4104 32 (8192, 0) one_block_state =
     Inr ((8200, 32),
          one_block_state\<lparr>used_memory_thread := [40, 0, 0, 0, 0],
                          heap_word := (heap_word one_block_state)(4096 := freed_word, 8192 := 32),
                          allocator_size :=
                            (allocator_size one_block_state)(4096 := freed_word, 8192 := 0),
                          trace := [Ev_realloc 4096 40, Ev_stat_free 16, Ev_stat_alloc 32]\<rparr>) \<and>
   \<not> stat_before_realloc [Ev_realloc 4096 40, Ev_stat_free 16, Ev_stat_alloc 32]"
  by (simp add: ztryrealloc_usable_def ztryrealloc_usable_internal_def realloc_def
      update_zmalloc_stat_free_def update_zmalloc_stat_alloc_def written_def
      header_build_def one_block_state_def PREFIX_SIZE_def MAX_THREADS_NUM_def SIZE_MAX_def
      Let_def)


section \<open>Requests below the minimum allocation unit\<close>

text \<open>
  C4, as the code has it. \<^verbatim>\<open>MALLOC_MIN_SIZE\<close> rounds only a request of 0 bytes, up to
  \<^verbatim>\<open>sizeof(long)\<close>; every other request below the overflow threshold, also one of 1 to 7
  bytes, is passed on as it is. When the underlying allocator succeeds the allocation
  returns a non-null pointer, and on a header-based build \<^verbatim>\<open>zmalloc_usable_size\<close> of that
  pointer is \<^verbatim>\<open>sizeof(long)\<close> for a request of 0 and the raw request otherwise.
\<close>

theorem zmalloc_minimum_unit:
  assumes s: "s < SIZE_MAX div 2"
      and ok: "allocator_succeeds (MALLOC_MIN_SIZE s + PREFIX_SIZE cfg) ans"
      and inv: "acct_inv cfg st"
  shows "\<exists>q st1.
           zmalloc cfg s ans st = Inr (q, st1) \<and> ztrymalloc cfg s ans st = Inr (q, st1) \<and>
           q \<noteq> 0 \<and>
           trace st1 = trace st @
             [Ev_malloc ((if s = 0 then sizeof_long else s) + PREFIX_SIZE cfg),
              Ev_stat_alloc (if HAVE_MALLOC_SIZE cfg then snd ans
                             else (if s = 0 then sizeof_long else s) + PREFIX_SIZE cfg)] \<and>
           (\<not> HAVE_MALLOC_SIZE cfg \<longrightarrow>
              zmalloc_usable_size cfg st1 q = (if s = 0 then sizeof_long else s))"
proof -
  let ?p = "fst ans"
  let ?q = "?p + PREFIX_SIZE cfg"
  from ok have p: "?p \<noteq> 0"
    and fit: "unat ?p + unat (MALLOC_MIN_SIZE s + PREFIX_SIZE cfg) \<le> 18446744073709551616"
    by (simp_all add: allocator_succeeds_def)
  from ztrymalloc_internal_success [OF s p inv] obtain st1 where
    r1: "ztrymalloc_usable_internal cfg s ans st =
           Inr ((?q, Some (if HAVE_MALLOC_SIZE cfg then snd ans else MALLOC_MIN_SIZE s)), st1)"
    and tr: "trace st1 = trace st @
             [Ev_malloc (MALLOC_MIN_SIZE s + PREFIX_SIZE cfg),
              Ev_stat_alloc (if HAVE_MALLOC_SIZE cfg then snd ans
                             else MALLOC_MIN_SIZE s + PREFIX_SIZE cfg)]"
    and hw1: "heap_word st1 = (if HAVE_MALLOC_SIZE cfg then heap_word st
                            else (heap_word st)(?p := MALLOC_MIN_SIZE s))"
    by blast
  have q: "?q \<noteq> 0"
  proof (cases "HAVE_MALLOC_SIZE cfg")
    case True
    with p show ?thesis by (simp add: PREFIX_SIZE_def)
  next
    case False
    have "?p + 8 \<noteq> 0"
      using MALLOC_MIN_SIZE_small [OF s] MALLOC_MIN_SIZE_pos fit False
      by (intro prefix_nonnull [of "MALLOC_MIN_SIZE s"]) (simp_all add: PREFIX_SIZE_def)
    with False show ?thesis by (simp add: PREFIX_SIZE_def)
  qed
  have a: "zmalloc cfg s ans st = Inr (?q, st1)"
    using q by (simp add: zmalloc_def r1)
  have b: "ztrymalloc cfg s ans st = Inr (?q, st1)"
    by (simp add: ztrymalloc_def r1)
  have us: "\<not> HAVE_MALLOC_SIZE cfg \<longrightarrow>
              zmalloc_usable_size cfg st1 ?q = (if s = 0 then sizeof_long else s)"
    by (simp add: zmalloc_usable_size_def zmalloc_size_def hw1 MALLOC_MIN_SIZE_cases)
  from a b q tr us show ?thesis
    by (simp add: MALLOC_MIN_SIZE_cases)
qed

theorem zmalloc_minimum_unit_witness:
  "(0 :: size_t) < SIZE_MAX div 2 \<and>
   allocator_succeeds (MALLOC_MIN_SIZE 0 + PREFIX_SIZE header_build) (4096, 64) \<and>
   acct_inv header_build start_state \<and> \<not> HAVE_MALLOC_SIZE header_build \<and>
   (\<exists>q st1. zmalloc header_build 0 (4096, 64) start_state = Inr (q, st1) \<and> q \<noteq> 0 \<and>
      trace st1 = [Ev_malloc 16, Ev_stat_alloc 16] \<and>
      zmalloc_usable_size header_build st1 q = 8)"
proof -
  have h1: "(0 :: size_t) < SIZE_MAX div 2"
    by (simp add: SIZE_MAX_def)
  have h2: "allocator_succeeds (MALLOC_MIN_SIZE 0 + PREFIX_SIZE header_build) (4096, 64)"
    by (simp add: allocator_succeeds_def MALLOC_MIN_SIZE_def PREFIX_SIZE_def header_build_def
        sizeof_long_def)
  have c: "PREFIX_SIZE header_build = 8" "\<not> HAVE_MALLOC_SIZE header_build"
    "trace start_state = []"
    by (simp_all add: PREFIX_SIZE_def header_build_def start_state_def)
  from zmalloc_minimum_unit [OF h1 h2 start_inv] obtain q st1 where
    "zmalloc header_build 0 (4096, 64) start_state = Inr (q, st1)" "q \<noteq> 0"
    "trace st1 = trace start_state @
       [Ev_malloc ((if (0 :: size_t) = 0 then sizeof_long else 0) + PREFIX_SIZE header_build),
        Ev_stat_alloc (if HAVE_MALLOC_SIZE header_build then snd (4096 :: ptr, 64 :: size_t)
                       else (if (0 :: size_t) = 0 then sizeof_long else 0) + PREFIX_SIZE header_build)]"
    "\<not> HAVE_MALLOC_SIZE header_build \<longrightarrow>
       zmalloc_usable_size header_build st1 q = (if (0 :: size_t) = 0 then sizeof_long else 0)"
    by blast
  then have "zmalloc header_build 0 (4096, 64) start_state = Inr (q, st1) \<and> q \<noteq> 0 \<and>
      trace st1 = [Ev_malloc 16, Ev_stat_alloc 16] \<and>
      zmalloc_usable_size header_build st1 q = 8"
    by (simp add: c sizeof_long_def)
  then show ?thesis using h1 h2 start_inv c(2) by blast
qed


text \<open>
  C4 as stated rounds every request below \<^verbatim>\<open>sizeof(long)\<close> up to it. A request of 1
  byte on a header-based build is below \<^verbatim>\<open>sizeof(long)\<close>, and the usable size of the
  returned pointer is the raw request 1, with 9 bytes asked of the underlying allocator.
\<close>

theorem zmalloc_small_request_counterexample:
  "(1 :: size_t) < sizeof_long \<and>
   zmalloc header_build 1 (4096, 64) start_state =
     Inr (4104,
          start_state\<lparr>thread_index := 0, used_memory_thread := [9, 0, 0, 0, 0],
                      total_active_threads := 1,
                      heap_word := (heap_word start_state)(4096 := 1),
                      allocator_size := (allocator_size start_state)(4096 := 64),
                      trace := [Ev_malloc 9, Ev_stat_alloc 9]\<rparr>) \<and>
   zmalloc_usable_size header_build
     (start_state\<lparr>thread_index := 0, used_memory_thread := [9, 0, 0, 0, 0],
                  total_active_threads := 1,
                  heap_word := (heap_word start_state)(4096 := 1),
                  allocator_size := (allocator_size start_state)(4096 := 64),
                  trace := [Ev_malloc 9, Ev_stat_alloc 9]\<rparr>) 4104 = 1 \<and>
   (1 :: size_t) \<noteq> sizeof_long"
proof -
  have g: "\<not> (9223372036854775807 :: size_t) \<le> 1"
    by (simp add: word_le_nat_alt)
  show ?thesis
    using g
    by (simp add: zmalloc_def ztrymalloc_usable_internal_def malloc_def note_block_def
      update_zmalloc_stat_alloc_def zmalloc_register_thread_index_def atomic_int_add_def
      zmalloc_usable_size_def zmalloc_size_def MALLOC_MIN_SIZE_def sizeof_long_def
      header_build_def start_state_def PREFIX_SIZE_def MAX_THREADS_NUM_def SIZE_MAX_def
      Let_def)
qed


section \<open>Reallocation at the overflow guard\<close>

text \<open>
  C9, as the code has it. For every non-null pointer and every size at or above
  \<^verbatim>\<open>SIZE_MAX / 2\<close>, \<^verbatim>\<open>ztryrealloc\<close> frees the pointer as \<^verbatim>\<open>zfree\<close> does and returns null:
  the accounting is decremented by \<^verbatim>\<open>zmalloc_size(ptr)\<close>, which is the usable size plus
  \<^verbatim>\<open>PREFIX_SIZE\<close> (the usable size itself on a native build, 8 bytes more on a
  header-based build), and the underlying block is released. When instead the
  underlying \<^verbatim>\<open>realloc\<close> fails, null is returned, nothing is released and the accounting
  is unchanged.
\<close>

theorem ztryrealloc_overflow_frees:
  assumes p: "p \<noteq> 0" and rp: "p - PREFIX_SIZE cfg \<noteq> 0" and inv: "acct_inv cfg st"
  shows "(SIZE_MAX div 2 \<le> sz \<longrightarrow>
            (\<exists>st'. ztryrealloc cfg p sz ans st = Inr (0, st') \<and> zfree cfg p st = Inr st' \<and>
               trace st' = trace st @
                 [Ev_stat_free (zmalloc_size cfg st p),
                  if USE_JEMALLOC cfg
                  then Ev_sdallocx (p - PREFIX_SIZE cfg) (zmalloc_size cfg st p)
                  else Ev_free (p - PREFIX_SIZE cfg)] \<and>
               zmalloc_used_memory cfg st = Inr (accounted_total cfg st) \<and>
               zmalloc_used_memory cfg st' =
                 Inr (accounted_total cfg st - zmalloc_size cfg st p))) \<and>
         (sz \<noteq> 0 \<and> sz < SIZE_MAX div 2 \<and> fst ans = 0 \<longrightarrow>
            ztryrealloc cfg p sz ans st =
              Inr (0, st\<lparr>trace := trace st @
                          [Ev_realloc (p - PREFIX_SIZE cfg) (sz + PREFIX_SIZE cfg)]\<rparr>)) \<and>
         zmalloc_size cfg st p = zmalloc_usable_size cfg st p + PREFIX_SIZE cfg"
proof -
  from zfree_success [OF p rp inv] obtain st' where
    z: "zfree cfg p st = Inr st'" and inv': "acct_inv cfg st'"
    and tot: "accounted_total cfg st' = accounted_total cfg st - zmalloc_size cfg st p"
    and tr: "trace st' = trace st @
             [Ev_stat_free (zmalloc_size cfg st p),
              if USE_JEMALLOC cfg then Ev_sdallocx (p - PREFIX_SIZE cfg) (zmalloc_size cfg st p)
              else Ev_free (p - PREFIX_SIZE cfg)]"
    by blast
  have um: "zmalloc_used_memory cfg st' = Inr (accounted_total cfg st - zmalloc_size cfg st p)"
    by (simp only: used_memory_inv [OF inv'] tot)
  have a: "SIZE_MAX div 2 \<le> sz \<Longrightarrow> ztryrealloc cfg p sz ans st = Inr (0, st')"
    using p by (simp add: ztryrealloc_def ztryrealloc_usable_internal_def z)
  have b: "sz \<noteq> 0 \<and> sz < SIZE_MAX div 2 \<and> fst ans = 0 \<longrightarrow>
            ztryrealloc cfg p sz ans st =
              Inr (0, st\<lparr>trace := trace st @
                          [Ev_realloc (p - PREFIX_SIZE cfg) (sz + PREFIX_SIZE cfg)]\<rparr>)"
  proof
    assume h: "sz \<noteq> 0 \<and> sz < SIZE_MAX div 2 \<and> fst ans = 0"
    then have "sz < SIZE_MAX div 2" by blast
    then have ng: "\<not> SIZE_MAX div 2 \<le> sz" by simp
    show "ztryrealloc cfg p sz ans st =
              Inr (0, st\<lparr>trace := trace st @
                          [Ev_realloc (p - PREFIX_SIZE cfg) (sz + PREFIX_SIZE cfg)]\<rparr>)"
      using p h ng
      by (simp add: ztryrealloc_def ztryrealloc_usable_internal_def realloc_def Let_def
          PREFIX_SIZE_def)
  qed
  have c: "zmalloc_size cfg st p = zmalloc_usable_size cfg st p + PREFIX_SIZE cfg"
    by (simp add: zmalloc_usable_size_def PREFIX_SIZE_def)
  from a z tr used_memory_inv [OF inv] um b c show ?thesis by blast
qed

theorem ztryrealloc_overflow_frees_witness:
  "(4104 :: ptr) \<noteq> 0 \<and> 4104 - PREFIX_SIZE header_build \<noteq> 0 \<and>
   acct_inv header_build one_block_state \<and>
   SIZE_MAX div 2 \<le> (9223372036854775807 :: size_t) \<and>
   (\<exists>st'. ztryrealloc header_build 4104 9223372036854775807 (0, 0) one_block_state = Inr (0, st') \<and>
      trace st' = [Ev_stat_free 24, Ev_free 4096] \<and>
      zmalloc_used_memory header_build one_block_state = Inr 24 \<and>
      zmalloc_used_memory header_build st' = Inr 0) \<and>
   ((32 :: size_t) \<noteq> 0 \<and> (32 :: size_t) < SIZE_MAX div 2 \<and> fst (0 :: ptr, 0 :: size_t) = 0) \<and>
   ztryrealloc header_build 4104 32 (0, 0) one_block_state =
     Inr (0, one_block_state\<lparr>trace := [Ev_realloc 4096 40]\<rparr>)"
proof -
  have h1: "(4104 :: ptr) \<noteq> 0" by simp
  have c: "PREFIX_SIZE header_build = 8" "\<not> USE_JEMALLOC header_build"
    "trace one_block_state = []"
    by (simp_all add: PREFIX_SIZE_def header_build_def one_block_state_def)
  have h2: "4104 - PREFIX_SIZE header_build \<noteq> 0" by (simp add: c)
  have g1: "SIZE_MAX div 2 \<le> (9223372036854775807 :: size_t)" by (simp add: SIZE_MAX_def)
  have g2: "(32 :: size_t) \<noteq> 0 \<and> (32 :: size_t) < SIZE_MAX div 2 \<and> fst (0 :: ptr, 0 :: size_t) = 0"
    by (simp add: SIZE_MAX_def)
  have zs: "zmalloc_size header_build one_block_state 4104 = 24"
    by (simp add: zmalloc_size_def header_build_def one_block_state_def PREFIX_SIZE_def)
  have t: "accounted_total header_build one_block_state = 24"
    by (simp add: accounted_total_def header_build_def one_block_state_def MAX_THREADS_NUM_def)
  note A = ztryrealloc_overflow_frees [OF h1 h2 one_block_inv,
      of 9223372036854775807 "(0, 0)"]
  note B = ztryrealloc_overflow_frees [OF h1 h2 one_block_inv, of 32 "(0, 0)"]
  from A g1 have "\<exists>st'. ztryrealloc header_build 4104 9223372036854775807 (0, 0) one_block_state = Inr (0, st') \<and>
      trace st' = [Ev_stat_free 24, Ev_free 4096] \<and>
      zmalloc_used_memory header_build one_block_state = Inr 24 \<and>
      zmalloc_used_memory header_build st' = Inr 0"
    by (simp add: zs t c) blast
  moreover from B g2 have "ztryrealloc header_build 4104 32 (0, 0) one_block_state =
     Inr (0, one_block_state\<lparr>trace := [Ev_realloc 4096 40]\<rparr>)"
    by (simp add: c)
  ultimately show ?thesis using h1 h2 one_block_inv g1 g2 by blast
qed


text \<open>
  C9 as stated has the accounting decremented by the usable size. On a header-based
  build the block of \<open>one_block_state\<close> has usable size 16, and the guard path takes the
  aggregate usage from 24 to 0: a decrement of 24.
\<close>

theorem ztryrealloc_overflow_decrement_counterexample:
  "(4104 :: ptr) \<noteq> 0 \<and> SIZE_MAX div 2 \<le> (9223372036854775807 :: size_t) \<and>
   ztryrealloc header_build 4104 9223372036854775807 (8192, 64) one_block_state =
     Inr (0, one_block_state\<lparr>used_memory_thread := [0, 0, 0, 0, 0],
                              trace := [Ev_stat_free 24, Ev_free 4096]\<rparr>) \<and>
   zmalloc_usable_size header_build one_block_state 4104 = 16 \<and>
   zmalloc_used_memory header_build one_block_state = Inr 24 \<and>
   zmalloc_used_memory header_build
     (one_block_state\<lparr>used_memory_thread := [0, 0, 0, 0, 0],
                      trace := [Ev_stat_free 24, Ev_free 4096]\<rparr>) = Inr 0 \<and>
   (24 :: size_t) - 0 \<noteq> 16"
proof -
  have a: "ztryrealloc header_build 4104 9223372036854775807 (8192, 64) one_block_state =
     Inr (0, one_block_state\<lparr>used_memory_thread := [0, 0, 0, 0, 0],
                              trace := [Ev_stat_free 24, Ev_free 4096]\<rparr>)"
    by (simp add: ztryrealloc_def ztryrealloc_usable_internal_def zfree_one_block SIZE_MAX_def)
  have b: "zmalloc_usable_size header_build one_block_state 4104 = 16"
    by (simp add: zmalloc_usable_size_def zmalloc_size_def header_build_def one_block_state_def
        PREFIX_SIZE_def)
  have c: "zmalloc_used_memory header_build
     (one_block_state\<lparr>used_memory_thread := [0, 0, 0, 0, 0],
                      trace := [Ev_stat_free 24, Ev_free 4096]\<rparr>) = Inr 0"
    by (simp add: zmalloc_used_memory_closed accounted_total_def one_block_state_def
        header_build_def MAX_THREADS_NUM_def)
  show ?thesis using a b c one_block_total by (simp add: SIZE_MAX_def)
qed


end
